theory Spec2Isabelle
  imports Complex_Main "HOL-Library.Word"
begin

section \<open>The tuning benchmarks of rocRAND: registration and timed run\<close>

text \<open>
  A shallow embedding of \<^verbatim>\<open>benchmark/tuning/benchmark_tuning.hpp\<close> and
  \<^verbatim>\<open>benchmark/tuning/benchmarked_generators.hpp\<close>. Template parameters become
  ordinary arguments, the vector of registered benchmarks is passed in and returned,
  and the device runtime is an explicit world that records every call.
\<close>

subsection \<open>Types of the generated values and generator templates\<close>

text \<open>The seven types \<^verbatim>\<open>add_all_benchmarks_for_generator\<close> instantiates \<^verbatim>\<open>T\<close> with.\<close>

datatype output_type =
    unsigned_int
  | unsigned_char
  | unsigned_short
  | unsigned_long_long
  | float
  | half
  | double

text \<open>
  The template template parameter \<^verbatim>\<open>GeneratorTemplate\<close>. The sources name one
  generator template, \<^verbatim>\<open>rocrand_xorwow_template\<close>; \<open>other_generator_template\<close>
  stands for any template for which no specialisation of \<^verbatim>\<open>output_type_supported\<close>
  is declared.
\<close>

datatype generator_template =
    rocrand_xorwow_template
  | other_generator_template string

text \<open>
  \<^verbatim>\<open>output_type_supported\<close>: the primary template derives from \<^verbatim>\<open>std::true_type\<close>,
  the specialisation for \<^verbatim>\<open><unsigned long long, rocrand_xorwow_template>\<close> from
  \<^verbatim>\<open>std::false_type\<close>.
\<close>

fun output_type_supported :: "output_type \<Rightarrow> generator_template \<Rightarrow> bool" where
  "output_type_supported unsigned_long_long rocrand_xorwow_template = False"
| "output_type_supported T G = True"

text \<open>\<^verbatim>\<open>std::is_integral_v\<close> and \<^verbatim>\<open>std::is_floating_point_v\<close> on the seven types
  (\<^verbatim>\<open>half\<close> is neither, which is why the source tests it by name).\<close>

fun is_integral_v :: "output_type \<Rightarrow> bool" where
  "is_integral_v unsigned_int = True"
| "is_integral_v unsigned_char = True"
| "is_integral_v unsigned_short = True"
| "is_integral_v unsigned_long_long = True"
| "is_integral_v T = False"

fun is_floating_point_v :: "output_type \<Rightarrow> bool" where
  "is_floating_point_v float = True"
| "is_floating_point_v double = True"
| "is_floating_point_v T = False"

text \<open>
  \<^verbatim>\<open>std::size_t\<close> on the 64-bit hosts HIP targets: arithmetic on it wraps at \<open>2 ^ 64\<close>.
  \<^verbatim>\<open>int64_t\<close> is the type of the iteration count and of the counters of
  \<^verbatim>\<open>benchmark::State\<close>; a value of it is kept as its 64 bits and read with \<open>sint\<close>.
\<close>

type_synonym size_t = "64 word"

type_synonym int64_t = "64 word"

text \<open>\<^verbatim>\<open>sizeof(T)\<close> in bytes, a \<^verbatim>\<open>std::size_t\<close>.\<close>

fun sizeof :: "output_type \<Rightarrow> size_t" where
  "sizeof unsigned_int = 4"
| "sizeof unsigned_char = 1"
| "sizeof unsigned_short = 2"
| "sizeof unsigned_long_long = 8"
| "sizeof float = 4"
| "sizeof half = 2"
| "sizeof double = 8"

subsection \<open>Distributions, configurations and registered benchmarks\<close>

datatype discrete_method = ROCRAND_DISCRETE_METHOD_ALIAS

text \<open>
  The distribution types the factory names, each with its template argument list as
  written in the source: \<^verbatim>\<open>uniform_distribution<T>\<close> is \<open>uniform_distribution [T]\<close>,
  \<^verbatim>\<open>uniform_distribution<unsigned long long, unsigned long long>\<close> has two arguments.
\<close>

datatype distribution =
    uniform_distribution "output_type list"
  | normal_distribution "output_type list"
  | log_normal_distribution "output_type list"
  | rocrand_poisson_distribution discrete_method

text \<open>\<^verbatim>\<open>benchmark_config\<close>: the field the code reads is \<^verbatim>\<open>size\<close>, the number of
  elements generated per iteration. It is a \<^verbatim>\<open>std::size_t\<close>, as the \<^verbatim>\<open>sizeof(T)\<close> it is
  multiplied with and the element count \<^verbatim>\<open>generate\<close> takes.\<close>

record benchmark_config =
  config_size :: size_t

text \<open>\<^verbatim>\<open>generator_config\<close>, built as \<^verbatim>\<open>{Threads, Blocks}\<close>.\<close>

record generator_config =
  threads :: nat
  blocks :: nat

text \<open>\<^verbatim>\<open>static_config_provider<Threads, Blocks>::static_config\<close>.\<close>

definition static_config :: "nat \<Rightarrow> nat \<Rightarrow> generator_config" where
  "static_config Threads Blocks = \<lparr>threads = Threads, blocks = Blocks\<rparr>"

text \<open>
  What \<^verbatim>\<open>benchmark::RegisterBenchmark\<close> receives: the name, and the closure that will run
  \<^verbatim>\<open>run_benchmark<T, GeneratorTemplate<ConfigProvider>, Distribution>(state, m_config)\<close>,
  kept as the values it captures.
\<close>

record benchmark =
  bench_name :: string
  bench_T :: output_type
  bench_generator :: generator_template
  bench_static_config :: generator_config
  bench_distribution :: distribution
  bench_config :: benchmark_config

text \<open>
  What the factory reads from headers that are not among the sources
  (\<^verbatim>\<open>benchmark_tuning_setup.hpp\<close>, \<^verbatim>\<open>benchmark_rocrand_utils.hpp\<close>,
  \<^verbatim>\<open>distribution_traits.hpp\<close>), taken as parameters: the table
  \<^verbatim>\<open>s_param_combinations\<close> of \<open>(threads, blocks)\<close> pairs, the threshold
  \<^verbatim>\<open>min_benchmarked_grid_size\<close>, the engine name of a generator template
  (\<^verbatim>\<open>engine_name(Generator{}.type())\<close>) and \<^verbatim>\<open>distribution_name<Distribution>{}()\<close>.
  Thread and block counts are natural numbers; their C++ type is declared in the
  missing setup header.
\<close>

record tuning_setup =
  s_param_combinations :: "(nat \<times> nat) list"
  min_benchmarked_grid_size :: nat
  engine_name :: "generator_template \<Rightarrow> string"
  distribution_name :: "distribution \<Rightarrow> string"

subsection \<open>Benchmark names\<close>

text \<open>\<^verbatim>\<open>std::to_string\<close> on an unsigned value: its decimal digits, no sign, no padding.\<close>

definition digit_char :: "nat \<Rightarrow> char" where
  "digit_char d = ''0123456789'' ! d"

function to_string :: "nat \<Rightarrow> string" where
  "to_string n = (if n < 10 then [digit_char n] else to_string (n div 10) @ [digit_char (n mod 10)])"
  by pat_completeness auto
termination
  by (relation "measure (\<lambda>n. n)") auto

definition get_benchmark_name ::
  "tuning_setup \<Rightarrow> generator_template \<Rightarrow> distribution \<Rightarrow> generator_config \<Rightarrow> string" where
  "get_benchmark_name S G D c =
     engine_name S G @ ''_'' @ distribution_name S D @ ''_t'' @ to_string (threads c)
       @ ''_b'' @ to_string (blocks c)"

subsection \<open>The factory\<close>

text \<open>
  The body of the lambda that \<^verbatim>\<open>add_benchmarks_impl\<close> runs for one index of
  \<^verbatim>\<open>s_param_combinations\<close>: it returns without registering when the grid size is below
  the threshold, and otherwise appends one benchmark to \<^verbatim>\<open>m_benchmarks\<close>.
\<close>

definition add_combination ::
  "tuning_setup \<Rightarrow> generator_template \<Rightarrow> benchmark_config \<Rightarrow> output_type \<Rightarrow> distribution
     \<Rightarrow> benchmark list \<Rightarrow> nat \<Rightarrow> benchmark list" where
  "add_combination S G m_config T D m_benchmarks combination_idx =
     (let current_combination = s_param_combinations S ! combination_idx;
          threads = fst current_combination;
          blocks = snd current_combination;
          grid_size = threads * blocks
      in if grid_size < min_benchmarked_grid_size S then m_benchmarks
         else m_benchmarks @
           [\<lparr>bench_name = get_benchmark_name S G D (static_config threads blocks),
             bench_T = T,
             bench_generator = G,
             bench_static_config = static_config threads blocks,
             bench_distribution = D,
             bench_config = m_config\<rparr>])"

text \<open>The fold expression over
  \<^verbatim>\<open>std::make_index_sequence<s_param_combinations.size()>\<close>: indices in increasing order.\<close>

definition add_benchmarks_impl ::
  "tuning_setup \<Rightarrow> generator_template \<Rightarrow> benchmark_config \<Rightarrow> output_type \<Rightarrow> distribution
     \<Rightarrow> benchmark list \<Rightarrow> benchmark list" where
  "add_benchmarks_impl S G m_config T D m_benchmarks =
     foldl (add_combination S G m_config T D) m_benchmarks
       [0 ..< length (s_param_combinations S)]"

text \<open>\<^verbatim>\<open>generator_benchmark_factory::add_benchmarks<T>\<close>, branch by branch.\<close>

definition add_benchmarks ::
  "tuning_setup \<Rightarrow> generator_template \<Rightarrow> benchmark_config \<Rightarrow> output_type
     \<Rightarrow> benchmark list \<Rightarrow> benchmark list" where
  "add_benchmarks S G m_config T m_benchmarks =
     (if \<not> output_type_supported T G then m_benchmarks
      else if is_integral_v T then
        (let UniformDistribution =
               (if T = unsigned_long_long
                then uniform_distribution [unsigned_long_long, unsigned_long_long]
                else uniform_distribution [T]);
             bs = add_benchmarks_impl S G m_config T UniformDistribution m_benchmarks
         in if T = unsigned_int
            then add_benchmarks_impl S G m_config T
                   (rocrand_poisson_distribution ROCRAND_DISCRETE_METHOD_ALIAS) bs
            else bs)
      else if is_floating_point_v T \<or> T = half then
        add_benchmarks_impl S G m_config T (log_normal_distribution [T])
          (add_benchmarks_impl S G m_config T (normal_distribution [T])
            (add_benchmarks_impl S G m_config T (uniform_distribution [T]) m_benchmarks))
      else m_benchmarks)"

text \<open>\<^verbatim>\<open>add_all_benchmarks_for_generator<GeneratorTemplate>(benchmarks, config)\<close>: the
  factory is built on the caller's vector and the seven calls run one after the other.\<close>

definition add_all_benchmarks_for_generator ::
  "tuning_setup \<Rightarrow> generator_template \<Rightarrow> benchmark list \<Rightarrow> benchmark_config
     \<Rightarrow> benchmark list" where
  "add_all_benchmarks_for_generator S G benchmarks config =
     (let b1 = add_benchmarks S G config unsigned_int benchmarks;
          b2 = add_benchmarks S G config unsigned_char b1;
          b3 = add_benchmarks S G config unsigned_short b2;
          b4 = add_benchmarks S G config unsigned_long_long b3;
          b5 = add_benchmarks S G config float b4;
          b6 = add_benchmarks S G config half b5;
          b7 = add_benchmarks S G config double b6
      in b7)"

subsection \<open>The device runtime and the benchmark state\<close>

text \<open>The two events of \<^verbatim>\<open>run_benchmark\<close>, and what a run acquires and must release.\<close>

datatype event = start | stop

datatype resource = Buffer | Event event

text \<open>
  Every call \<^verbatim>\<open>run_benchmark\<close> makes to the HIP runtime, to the generator and to
  \<^verbatim>\<open>benchmark::State\<close>, as it is recorded in the world. \<open>Call_hipMalloc\<close> carries the
  number of bytes, \<open>Call_generate\<close> the distribution and the number of elements, both
  of type \<^verbatim>\<open>std::size_t\<close>.
\<close>

datatype call =
    Call_hipMalloc size_t
  | Call_set_stream
  | Call_generate distribution size_t
  | Call_hipDeviceSynchronize
  | Call_hipEventCreate event
  | Call_hipEventRecord event
  | Call_hipEventSynchronize event
  | Call_hipEventElapsedTime event event
  | Call_SetIterationTime
  | Call_SetBytesProcessed
  | Call_SetItemsProcessed
  | Call_hipEventDestroy event
  | Call_hipFree

text \<open>
  The external collaborators' answers: \<open>status R k\<close> is the status code of the call
  made when \<open>k\<close> calls have been made before it (\<open>0\<close> is \<^verbatim>\<open>hipSuccess\<close> and
  \<^verbatim>\<open>ROCRAND_STATUS_SUCCESS\<close>), and \<open>elapsed_ms R i\<close> the milliseconds that
  \<^verbatim>\<open>hipEventElapsedTime\<close> writes in the measured iteration number \<open>i\<close>: a finite
  \<^verbatim>\<open>float\<close>, given as the real number it denotes.
\<close>

record runtime =
  status :: "nat \<Rightarrow> nat"
  elapsed_ms :: "nat \<Rightarrow> real"

text \<open>
  The world a run changes: the calls made so far (oldest first), the resources that are
  acquired and not released, the local variable \<^verbatim>\<open>elapsed\<close>, and what
  \<^verbatim>\<open>benchmark::State\<close> was told: the time of each iteration (\<^verbatim>\<open>SetIterationTime\<close>
  takes a \<^verbatim>\<open>double\<close>, which holds every \<^verbatim>\<open>float\<close> exactly), and the bytes and the items
  processed, two \<^verbatim>\<open>int64_t\<close> counters.
\<close>

record world =
  calls :: "call list"
  live :: "resource set"
  elapsed :: real
  iteration_times :: "real list"
  bytes_processed :: int64_t
  items_processed :: int64_t

definition initial_world :: world where
  "initial_world =
     \<lparr>calls = [], live = {}, elapsed = 0, iteration_times = [],
       bytes_processed = 0, items_processed = 0\<rparr>"

datatype failure = HIP_error nat | ROCRAND_error nat

text \<open>A call that returns a status: it is recorded, and takes effect when it succeeds.\<close>

definition runtime_call ::
  "runtime \<Rightarrow> call \<Rightarrow> (world \<Rightarrow> world) \<Rightarrow> world \<Rightarrow> nat \<times> world" where
  "runtime_call R c effect w =
     (let e = status R (length (calls w));
          w' = w\<lparr>calls := calls w @ [c]\<rparr>
      in (e, if e = 0 then effect w' else w'))"

definition hipMalloc :: "runtime \<Rightarrow> size_t \<Rightarrow> world \<Rightarrow> nat \<times> world" where
  "hipMalloc R bytes =
     runtime_call R (Call_hipMalloc bytes) (\<lambda>w. w\<lparr>live := insert Buffer (live w)\<rparr>)"

definition hipFree :: "runtime \<Rightarrow> world \<Rightarrow> nat \<times> world" where
  "hipFree R = runtime_call R Call_hipFree (\<lambda>w. w\<lparr>live := live w - {Buffer}\<rparr>)"

definition hipDeviceSynchronize :: "runtime \<Rightarrow> world \<Rightarrow> nat \<times> world" where
  "hipDeviceSynchronize R = runtime_call R Call_hipDeviceSynchronize (\<lambda>w. w)"

definition hipEventCreate :: "runtime \<Rightarrow> event \<Rightarrow> world \<Rightarrow> nat \<times> world" where
  "hipEventCreate R e =
     runtime_call R (Call_hipEventCreate e) (\<lambda>w. w\<lparr>live := insert (Event e) (live w)\<rparr>)"

definition hipEventDestroy :: "runtime \<Rightarrow> event \<Rightarrow> world \<Rightarrow> nat \<times> world" where
  "hipEventDestroy R e =
     runtime_call R (Call_hipEventDestroy e) (\<lambda>w. w\<lparr>live := live w - {Event e}\<rparr>)"

definition hipEventRecord :: "runtime \<Rightarrow> event \<Rightarrow> world \<Rightarrow> nat \<times> world" where
  "hipEventRecord R e = runtime_call R (Call_hipEventRecord e) (\<lambda>w. w)"

definition hipEventSynchronize :: "runtime \<Rightarrow> event \<Rightarrow> world \<Rightarrow> nat \<times> world" where
  "hipEventSynchronize R e = runtime_call R (Call_hipEventSynchronize e) (\<lambda>w. w)"

text \<open>\<^verbatim>\<open>hipEventElapsedTime(&elapsed, start, stop)\<close> writes the local variable
  \<^verbatim>\<open>elapsed\<close>. Its initialisation to \<^verbatim>\<open>0.0f\<close> is not a step of its own: the value is
  read only after a successful \<^verbatim>\<open>hipEventElapsedTime\<close> has overwritten it.\<close>

definition hipEventElapsedTime :: "runtime \<Rightarrow> event \<Rightarrow> event \<Rightarrow> world \<Rightarrow> nat \<times> world" where
  "hipEventElapsedTime R e1 e2 =
     runtime_call R (Call_hipEventElapsedTime e1 e2)
       (\<lambda>w. w\<lparr>elapsed := elapsed_ms R (length (iteration_times w))\<rparr>)"

text \<open>\<^verbatim>\<open>generate_func\<close>: the lambda that calls
  \<^verbatim>\<open>generator.generate(data, config.size, default_distribution<Distribution>{}(config))\<close>.\<close>

definition generate_func :: "runtime \<Rightarrow> distribution \<Rightarrow> benchmark_config \<Rightarrow> world \<Rightarrow> nat \<times> world" where
  "generate_func R D config = runtime_call R (Call_generate D (config_size config)) (\<lambda>w. w)"

text \<open>
  Modelled from the spec: the macros \<^verbatim>\<open>HIP_CHECK\<close> and \<^verbatim>\<open>ROCRAND_CHECK\<close> (their header
  is not among the sources). By the spec a status other than success stops the run at
  once and the failure is surfaced to the caller: the checked call yields the failure
  and nothing after it runs.
\<close>

definition HIP_CHECK :: "(world \<Rightarrow> nat \<times> world) \<Rightarrow> world \<Rightarrow> failure option \<times> world" where
  "HIP_CHECK condition w =
     (case condition w of (e, w') \<Rightarrow> if e = 0 then (None, w') else (Some (HIP_error e), w'))"

definition ROCRAND_CHECK :: "(world \<Rightarrow> nat \<times> world) \<Rightarrow> world \<Rightarrow> failure option \<times> world" where
  "ROCRAND_CHECK condition w =
     (case condition w of (e, w') \<Rightarrow> if e = 0 then (None, w') else (Some (ROCRAND_error e), w'))"

text \<open>The calls that return nothing to check.\<close>

definition set_stream :: "world \<Rightarrow> failure option \<times> world" where
  "set_stream w = (None, w\<lparr>calls := calls w @ [Call_set_stream]\<rparr>)"

definition SetIterationTime :: "real \<Rightarrow> world \<Rightarrow> failure option \<times> world" where
  "SetIterationTime seconds w =
     (None, w\<lparr>calls := calls w @ [Call_SetIterationTime],
              iteration_times := iteration_times w @ [seconds]\<rparr>)"

definition SetBytesProcessed :: "int64_t \<Rightarrow> world \<Rightarrow> failure option \<times> world" where
  "SetBytesProcessed bytes w =
     (None, w\<lparr>calls := calls w @ [Call_SetBytesProcessed], bytes_processed := bytes\<rparr>)"

definition SetItemsProcessed :: "int64_t \<Rightarrow> world \<Rightarrow> failure option \<times> world" where
  "SetItemsProcessed items w =
     (None, w\<lparr>calls := calls w @ [Call_SetItemsProcessed], items_processed := items\<rparr>)"

subsection \<open>Division of floats\<close>

text \<open>
  \<^verbatim>\<open>elapsed / 1000.f\<close> divides two \<^verbatim>\<open>float\<close>s: the result is the IEEE 754 binary32
  number nearest to the exact quotient, ties to the even significand. Finite floats
  are given as the real numbers they denote. \<open>float_exponent x\<close> is the exponent of the
  last bit of the significand of a float of the size of \<open>x\<close>: significands have 24
  bits, and the exponent is not below \<open>-149\<close> (the subnormal numbers). Infinities, NaN
  and the sign of zero are outside the model; a finite time divided by 1000 does not
  produce them.
\<close>

definition round_to_even :: "real \<Rightarrow> int" where
  "round_to_even x =
     (let f = \<lfloor>x\<rfloor>; d = x - of_int f
      in if d < 1 / 2 then f
         else if 1 / 2 < d then f + 1
         else if even f then f else f + 1)"

definition float_exponent :: "real \<Rightarrow> int" where
  "float_exponent x =
     (case find (\<lambda>e. 2 powi (e + 23) \<le> \<bar>x\<bar>) (rev [-149 .. 104]) of
        Some e \<Rightarrow> e
      | None \<Rightarrow> -149)"

definition float_round :: "real \<Rightarrow> real" where
  "float_round x =
     of_int (round_to_even (x / 2 powi float_exponent x)) * 2 powi float_exponent x"

definition float_div :: "real \<Rightarrow> real \<Rightarrow> real" where
  "float_div x y = float_round (x / y)"

subsection \<open>The timed run\<close>

text \<open>Statements in sequence: the first failure ends the run with the world as it is.\<close>

fun run_steps ::
  "(world \<Rightarrow> failure option \<times> world) list \<Rightarrow> world \<Rightarrow> failure option \<times> world" where
  "run_steps [] w = (None, w)"
| "run_steps (s # ss) w =
     (case s w of (None, w') \<Rightarrow> run_steps ss w' | (Some f, w') \<Rightarrow> (Some f, w'))"

text \<open>The body of \<^verbatim>\<open>for(auto _ : state)\<close>.\<close>

definition measured_iteration ::
  "runtime \<Rightarrow> distribution \<Rightarrow> benchmark_config \<Rightarrow> (world \<Rightarrow> failure option \<times> world) list" where
  "measured_iteration R D config =
     [HIP_CHECK (hipEventRecord R start),
      ROCRAND_CHECK (generate_func R D config),
      HIP_CHECK (hipEventRecord R stop),
      HIP_CHECK (hipEventSynchronize R stop),
      HIP_CHECK (hipEventElapsedTime R start stop),
      (\<lambda>w. SetIterationTime (float_div (elapsed w) 1000) w)]"

text \<open>
  \<^verbatim>\<open>run_benchmark<T, Generator, Distribution>(state, config)\<close>. \<open>iterations\<close> is the
  number of times \<^verbatim>\<open>benchmark::State\<close> lets the loop body run, which is also what
  \<^verbatim>\<open>state.iterations()\<close> returns after the loop, an \<^verbatim>\<open>int64_t\<close>. The products
  \<^verbatim>\<open>config.size * sizeof(T)\<close>, \<^verbatim>\<open>state.iterations() * config.size * sizeof(T)\<close> and
  \<^verbatim>\<open>state.iterations() * config.size\<close> are taken in \<^verbatim>\<open>std::size_t\<close>, so they wrap at
  \<open>2 ^ 64\<close>. The generator object is the external collaborator whose answers are in
  \<open>R\<close>.
\<close>

definition run_benchmark ::
  "runtime \<Rightarrow> output_type \<Rightarrow> distribution \<Rightarrow> benchmark_config \<Rightarrow> nat \<Rightarrow> world
     \<Rightarrow> failure option \<times> world" where
  "run_benchmark R T D config iterations =
     run_steps
       ([HIP_CHECK (hipMalloc R (config_size config * sizeof T)),
         set_stream,
         ROCRAND_CHECK (generate_func R D config),
         HIP_CHECK (hipDeviceSynchronize R),
         HIP_CHECK (hipEventCreate R start),
         HIP_CHECK (hipEventCreate R stop)]
        @ concat (replicate iterations (measured_iteration R D config))
        @ [SetBytesProcessed (of_nat iterations * config_size config * sizeof T),
           SetItemsProcessed (of_nat iterations * config_size config),
           HIP_CHECK (hipEventDestroy R stop),
           HIP_CHECK (hipEventDestroy R start),
           HIP_CHECK (hipFree R)])"

subsection \<open>Notions used to state the properties\<close>

text \<open>The combinations \<^verbatim>\<open>add_benchmarks_impl\<close> does not skip: those whose grid size is
  not below \<^verbatim>\<open>min_benchmarked_grid_size\<close>, in the order of the table.\<close>

definition retained :: "tuning_setup \<Rightarrow> (nat \<times> nat) list" where
  "retained S =
     filter (\<lambda>c. min_benchmarked_grid_size S \<le> fst c * snd c) (s_param_combinations S)"

text \<open>The benchmark \<^verbatim>\<open>add_benchmarks_impl\<close> appends for one combination it keeps.\<close>

definition registered ::
  "tuning_setup \<Rightarrow> generator_template \<Rightarrow> benchmark_config \<Rightarrow> output_type \<Rightarrow> distribution
     \<Rightarrow> nat \<times> nat \<Rightarrow> benchmark" where
  "registered S G m_config T D c =
     \<lparr>bench_name = get_benchmark_name S G D (static_config (fst c) (snd c)),
       bench_T = T,
       bench_generator = G,
       bench_static_config = static_config (fst c) (snd c),
       bench_distribution = D,
       bench_config = m_config\<rparr>"

text \<open>
  Modelled from the spec: \<^verbatim>\<open>cpp_utils::numeric_combinations\<close> (\<^verbatim>\<open>rng/cpp_utils.hpp\<close> is
  not among the sources). The spec describes its result as the cross product of the
  thread options and the block options, the outer iteration over the first list and
  the inner one over the second, with duplicates removed. Of equal pairs the first is
  kept here.
\<close>

fun remove_duplicates :: "'a list \<Rightarrow> 'a list" where
  "remove_duplicates [] = []"
| "remove_duplicates (x # xs) = x # remove_duplicates (filter (\<lambda>y. y \<noteq> x) xs)"

definition numeric_combinations :: "nat list \<Rightarrow> nat list \<Rightarrow> (nat \<times> nat) list" where
  "numeric_combinations thread_options block_options =
     remove_duplicates (concat (map (\<lambda>t. map (\<lambda>b. (t, b)) block_options) thread_options))"

text \<open>
  \<^verbatim>\<open>distribution_name\<close> is declared in \<^verbatim>\<open>distribution_traits.hpp\<close>, which is not among the
  sources. The following naming is one instance that gives every distribution type a
  name of its own, by appending the names of its template arguments.
\<close>

fun show_type :: "output_type \<Rightarrow> string" where
  "show_type unsigned_int = ''uint''"
| "show_type unsigned_char = ''uchar''"
| "show_type unsigned_short = ''ushort''"
| "show_type unsigned_long_long = ''ullong''"
| "show_type float = ''float''"
| "show_type half = ''half''"
| "show_type double = ''double''"

definition example_distribution_name :: "distribution \<Rightarrow> string" where
  "example_distribution_name D =
     (case D of
        uniform_distribution Ts \<Rightarrow> ''uniform'' @ concat (map (\<lambda>T. CHR ''_'' # show_type T) Ts)
      | normal_distribution Ts \<Rightarrow> ''normal'' @ concat (map (\<lambda>T. CHR ''_'' # show_type T) Ts)
      | log_normal_distribution Ts \<Rightarrow>
          ''log_normal'' @ concat (map (\<lambda>T. CHR ''_'' # show_type T) Ts)
      | rocrand_poisson_distribution m \<Rightarrow> ''poisson'')"


text \<open>
  The protocol of the timed run in the words of the spec, as the sequence of calls of a
  run in which nothing fails: the allocation and the binding of the stream, one
  warm-up \<^verbatim>\<open>generate\<close> and a device synchronization, the creation of the two events,
  then for each of the \<open>n\<close> measured iterations: record start, generate, record stop,
  wait for stop, read the elapsed time, report it; then the two totals and the
  releases. It is compared with the calls \<open>run_benchmark\<close> makes.
\<close>

definition spec_protocol_calls :: "output_type \<Rightarrow> distribution \<Rightarrow> benchmark_config \<Rightarrow> nat \<Rightarrow> call list" where
  "spec_protocol_calls T D config n =
     [Call_hipMalloc (config_size config * sizeof T),
      Call_set_stream,
      Call_generate D (config_size config),
      Call_hipDeviceSynchronize,
      Call_hipEventCreate start,
      Call_hipEventCreate stop]
     @ concat (replicate n
        [Call_hipEventRecord start,
         Call_generate D (config_size config),
         Call_hipEventRecord stop,
         Call_hipEventSynchronize stop,
         Call_hipEventElapsedTime start stop,
         Call_SetIterationTime])
     @ [Call_SetBytesProcessed,
        Call_SetItemsProcessed,
        Call_hipEventDestroy stop,
        Call_hipEventDestroy start,
        Call_hipFree]"

text \<open>
  The calls \<open>run_benchmark\<close> makes inside \<^verbatim>\<open>HIP_CHECK\<close> or \<^verbatim>\<open>ROCRAND_CHECK\<close>: all but the
  binding of the stream and the three reports to \<^verbatim>\<open>benchmark::State\<close>. \<open>failure_of\<close> is
  the failure a checked call yields for a status other than success.
\<close>

fun checked_call :: "call \<Rightarrow> bool" where
  "checked_call Call_set_stream = False"
| "checked_call Call_SetIterationTime = False"
| "checked_call Call_SetBytesProcessed = False"
| "checked_call Call_SetItemsProcessed = False"
| "checked_call c = True"

fun failure_of :: "call \<Rightarrow> nat \<Rightarrow> failure" where
  "failure_of (Call_generate D n) e = ROCRAND_error e"
| "failure_of c e = HIP_error e"

text \<open>What a successful call acquires or releases.\<close>

fun live_effect :: "call \<Rightarrow> resource set \<Rightarrow> resource set" where
  "live_effect (Call_hipMalloc n) A = insert Buffer A"
| "live_effect (Call_hipEventCreate e) A = insert (Event e) A"
| "live_effect (Call_hipEventDestroy e) A = A - {Event e}"
| "live_effect Call_hipFree A = A - {Buffer}"
| "live_effect c A = A"

text \<open>
  A step that makes the call \<open>c\<close>: it records \<open>c\<close>; it fails exactly when \<open>c\<close> is checked
  and the status the runtime returns for it is not success; it has the effect of \<open>c\<close>
  on the resources when it does not fail, and none when it fails.
\<close>

definition step_of :: "runtime \<Rightarrow> call \<Rightarrow> (world \<Rightarrow> failure option \<times> world) \<Rightarrow> bool" where
  "step_of R c s =
     (\<forall>w. calls (snd (s w)) = calls w @ [c]
        \<and> fst (s w) =
            (if checked_call c \<and> status R (length (calls w)) \<noteq> 0
             then Some (failure_of c (status R (length (calls w)))) else None)
        \<and> live (snd (s w)) =
            (if checked_call c \<and> status R (length (calls w)) \<noteq> 0
             then live w else live_effect c (live w)))"

section \<open>Properties of the factory\<close>

declare to_string.simps [simp del]

subsection \<open>What one call registers\<close>

lemma foldl_indices: "foldl (\<lambda>acc i. f acc (xs ! i)) a [0 ..< length xs] = foldl f a xs"
proof -
  have "foldl f a (map (nth xs) [0 ..< length xs]) = foldl (\<lambda>acc i. f acc (xs ! i)) a [0 ..< length xs]"
    by (simp add: foldl_map)
  then show ?thesis by (simp add: map_nth)
qed

lemma foldl_register:
  "foldl (\<lambda>acc c. if P c then acc else acc @ [g c]) a xs = a @ map g (filter (\<lambda>c. \<not> P c) xs)"
  by (induction xs arbitrary: a) auto

lemma add_benchmarks_impl_eq:
  "add_benchmarks_impl S G cfg T D bs = bs @ map (registered S G cfg T D) (retained S)"
proof -
  define f where "f = (\<lambda>acc c. if fst c * snd c < min_benchmarked_grid_size S then acc
               else acc @ [registered S G cfg T D c])"
  have step: "add_combination S G cfg T D = (\<lambda>acc i. f acc (s_param_combinations S ! i))"
    by (intro ext) (simp add: add_combination_def registered_def Let_def f_def)
  have "add_benchmarks_impl S G cfg T D bs = foldl f bs (s_param_combinations S)"
    unfolding add_benchmarks_impl_def step by (rule foldl_indices)
  also have "\<dots> = bs @ map (registered S G cfg T D)
        (filter (\<lambda>c. \<not> fst c * snd c < min_benchmarked_grid_size S) (s_param_combinations S))"
    unfolding f_def by (rule foldl_register)
  finally show ?thesis by (simp add: retained_def not_less)
qed

lemma set_remove_duplicates: "set (remove_duplicates xs) = set xs"
  by (induction xs rule: remove_duplicates.induct) auto

lemma distinct_remove_duplicates: "distinct (remove_duplicates xs)"
  by (induction xs rule: remove_duplicates.induct) (auto simp: set_remove_duplicates)

lemma set_numeric_combinations:
  "set (numeric_combinations ts bs) = set ts \<times> set bs"
  by (auto simp: numeric_combinations_def set_remove_duplicates)

lemma distinct_numeric_combinations: "distinct (numeric_combinations ts bs)"
  by (simp add: numeric_combinations_def distinct_remove_duplicates)

lemma static_config_inj: "static_config t b = static_config t' b' \<longleftrightarrow> t = t' \<and> b = b'"
  by (simp add: static_config_def)

lemma bench_static_config_registered:
  "bench_static_config (registered S G cfg T D c) = static_config (fst c) (snd c)"
  by (simp add: registered_def)

lemma add_benchmarks_unsupported:
  "\<not> output_type_supported T G \<Longrightarrow> add_benchmarks S G cfg T bs = bs"
  by (simp add: add_benchmarks_def)

lemma add_benchmarks_unsigned_int:
  "output_type_supported unsigned_int G \<Longrightarrow>
   add_benchmarks S G cfg unsigned_int bs =
     bs @ map (registered S G cfg unsigned_int (uniform_distribution [unsigned_int])) (retained S)
        @ map (registered S G cfg unsigned_int
                 (rocrand_poisson_distribution ROCRAND_DISCRETE_METHOD_ALIAS)) (retained S)"
  by (simp add: add_benchmarks_def add_benchmarks_impl_eq)

lemma add_benchmarks_narrow:
  "output_type_supported T G \<Longrightarrow> T = unsigned_char \<or> T = unsigned_short \<Longrightarrow>
   add_benchmarks S G cfg T bs =
     bs @ map (registered S G cfg T (uniform_distribution [T])) (retained S)"
  by (auto simp add: add_benchmarks_def add_benchmarks_impl_eq)

lemma add_benchmarks_unsigned_long_long:
  "output_type_supported unsigned_long_long G \<Longrightarrow>
   add_benchmarks S G cfg unsigned_long_long bs =
     bs @ map (registered S G cfg unsigned_long_long
                 (uniform_distribution [unsigned_long_long, unsigned_long_long])) (retained S)"
  by (simp add: add_benchmarks_def add_benchmarks_impl_eq)

lemma add_benchmarks_floating:
  "output_type_supported T G \<Longrightarrow> T = float \<or> T = half \<or> T = double \<Longrightarrow>
   add_benchmarks S G cfg T bs =
     bs @ map (registered S G cfg T (uniform_distribution [T])) (retained S)
        @ map (registered S G cfg T (normal_distribution [T])) (retained S)
        @ map (registered S G cfg T (log_normal_distribution [T])) (retained S)"
  by (auto simp add: add_benchmarks_def add_benchmarks_impl_eq)

lemma add_benchmarks_appends:
  "add_benchmarks S G cfg T bs = bs @ add_benchmarks S G cfg T []"
  by (cases T; cases "output_type_supported T G")
     (simp_all add: add_benchmarks_def add_benchmarks_impl_eq)

lemma bench_T_add_benchmarks:
  "b \<in> set (add_benchmarks S G cfg T []) \<Longrightarrow> bench_T b = T"
  by (cases T; cases "output_type_supported T G")
     (auto simp add: add_benchmarks_def add_benchmarks_impl_eq registered_def)

lemma add_all_eq_concat:
  "add_all_benchmarks_for_generator S G bs cfg =
     bs @ concat (map (\<lambda>T. add_benchmarks S G cfg T [])
       [unsigned_int, unsigned_char, unsigned_short, unsigned_long_long, float, half, double])"
proof -
  have "add_all_benchmarks_for_generator S G bs cfg =
      foldl (\<lambda>acc T. add_benchmarks S G cfg T acc) bs
       [unsigned_int, unsigned_char, unsigned_short, unsigned_long_long, float, half, double]"
    by (simp add: add_all_benchmarks_for_generator_def Let_def)
  also have "foldl (\<lambda>acc T. add_benchmarks S G cfg T acc) bs Ts
      = bs @ concat (map (\<lambda>T. add_benchmarks S G cfg T []) Ts)" for Ts
  proof (induction Ts arbitrary: bs)
    case Nil
    show ?case by simp
  next
    case (Cons T Ts)
    have "foldl (\<lambda>acc T. add_benchmarks S G cfg T acc) bs (T # Ts)
        = add_benchmarks S G cfg T bs @ concat (map (\<lambda>T. add_benchmarks S G cfg T []) Ts)"
      by (simp add: Cons.IH)
    also have "add_benchmarks S G cfg T bs = bs @ add_benchmarks S G cfg T []"
      by (rule add_benchmarks_appends)
    finally show ?case by simp
  qed
  finally show ?thesis .
qed

subsection \<open>Decimal digits and the format of a name\<close>














subsection \<open>The claims about registration\<close>

text \<open>
  C1. With the table of combinations computed from a list of thread options and a list
  of block options, the launch shapes for which \<^verbatim>\<open>add_benchmarks_impl\<close> registers a
  benchmark are exactly the pairs \<open>(t, b)\<close> of the cross product of the two lists with
  \<open>t * b\<close> at least the threshold, each of them once; no pair outside the cross product
  is among them.
\<close>

theorem registered_shapes_cross_product:
  "set (map bench_static_config
          (add_benchmarks_impl (S\<lparr>s_param_combinations := numeric_combinations ts bs\<rparr>) G cfg T D []))
     = {static_config t b | t b.
          t \<in> set ts \<and> b \<in> set bs \<and> min_benchmarked_grid_size S \<le> t * b}
   \<and> distinct (map bench_static_config
          (add_benchmarks_impl (S\<lparr>s_param_combinations := numeric_combinations ts bs\<rparr>) G cfg T D []))"
proof -
  let ?S = "S\<lparr>s_param_combinations := numeric_combinations ts bs\<rparr>"
  have shapes: "map bench_static_config (add_benchmarks_impl ?S G cfg T D [])
      = map (\<lambda>c. static_config (fst c) (snd c)) (retained ?S)"
    by (simp add: add_benchmarks_impl_eq bench_static_config_registered)
  have ret: "set (retained ?S) = {c. c \<in> set ts \<times> set bs \<and> min_benchmarked_grid_size S \<le> fst c * snd c}"
    by (auto simp: retained_def set_numeric_combinations)
  have "set (map (\<lambda>c. static_config (fst c) (snd c)) (retained ?S))
      = {static_config t b | t b. t \<in> set ts \<and> b \<in> set bs \<and> min_benchmarked_grid_size S \<le> t * b}"
    unfolding set_map ret by force
  moreover have "distinct (map (\<lambda>c. static_config (fst c) (snd c)) (retained ?S))"
  proof -
    have "distinct (retained ?S)"
      by (simp add: retained_def distinct_numeric_combinations)
    moreover have "inj_on (\<lambda>c. static_config (fst c) (snd c)) (set (retained ?S))"
      by (rule inj_onI) (simp add: static_config_inj prod_eq_iff)
    ultimately show ?thesis by (simp add: distinct_map)
  qed
  ultimately show ?thesis unfolding shapes by simp
qed

text \<open>The thread options 64, 128, 64 and the block option 8: with the threshold 600 only
  \<open>(128, 8)\<close> is registered; with 512 both \<open>(64, 8)\<close> and \<open>(128, 8)\<close> are, each once.\<close>

theorem registered_shapes_cross_product_witness:
  "set (map bench_static_config
     (add_benchmarks_impl
        (\<lparr>s_param_combinations = [], min_benchmarked_grid_size = 600,
           engine_name = (\<lambda>G. ''xorwow''), distribution_name = example_distribution_name\<rparr>
         \<lparr>s_param_combinations := numeric_combinations [64, 128, 64] [8]\<rparr>)
        rocrand_xorwow_template \<lparr>config_size = 1024\<rparr> float (uniform_distribution [float]) []))
     = {\<lparr>threads = 128, blocks = 8\<rparr>}
   \<and> map bench_static_config
     (add_benchmarks_impl
        (\<lparr>s_param_combinations = [], min_benchmarked_grid_size = 512,
           engine_name = (\<lambda>G. ''xorwow''), distribution_name = example_distribution_name\<rparr>
         \<lparr>s_param_combinations := numeric_combinations [64, 128, 64] [8]\<rparr>)
        rocrand_xorwow_template \<lparr>config_size = 1024\<rparr> float (uniform_distribution [float]) [])
     = [\<lparr>threads = 64, blocks = 8\<rparr>, \<lparr>threads = 128, blocks = 8\<rparr>]"
proof -
  have "{static_config t b | t b. t \<in> set [64, 128, 64] \<and> b \<in> set [8] \<and> (600 :: nat) \<le> t * b}
      = {\<lparr>threads = 128, blocks = 8\<rparr>}"
    by (auto simp add: static_config_def)
  moreover have "map bench_static_config
     (add_benchmarks_impl
        (\<lparr>s_param_combinations = [], min_benchmarked_grid_size = 512,
           engine_name = (\<lambda>G. ''xorwow''), distribution_name = example_distribution_name\<rparr>
         \<lparr>s_param_combinations := numeric_combinations [64, 128, 64] [8]\<rparr>)
        rocrand_xorwow_template \<lparr>config_size = 1024\<rparr> float (uniform_distribution [float]) [])
     = [\<lparr>threads = 64, blocks = 8\<rparr>, \<lparr>threads = 128, blocks = 8\<rparr>]"
    by (simp add: add_benchmarks_impl_eq retained_def registered_def numeric_combinations_def
        static_config_def)
  ultimately show ?thesis
    using registered_shapes_cross_product
      [where S = "\<lparr>s_param_combinations = [], min_benchmarked_grid_size = 600,
           engine_name = (\<lambda>G. ''xorwow''), distribution_name = example_distribution_name\<rparr>"
         and ts = "[64, 128, 64]" and bs = "[8]" and G = rocrand_xorwow_template
         and cfg = "\<lparr>config_size = 1024\<rparr>" and T = float
         and D = "uniform_distribution [float]"]
    by simp
qed

text \<open>
  C2. When \<^verbatim>\<open>output_type_supported<T, GeneratorTemplate>\<close> is false,
  \<^verbatim>\<open>add_benchmarks<T>\<close> returns the list of benchmarks as it received it: nothing is
  registered, and registration has no failing path.
\<close>

theorem unsupported_type_registers_nothing:
  "\<not> output_type_supported T G \<Longrightarrow> add_benchmarks S G cfg T bs = bs"
  by (rule add_benchmarks_unsupported)

text \<open>The hypothesis holds for \<^verbatim>\<open>unsigned long long\<close> on the xorwow template.\<close>

theorem unsupported_type_registers_nothing_witness:
  "\<not> output_type_supported unsigned_long_long rocrand_xorwow_template
   \<and> add_benchmarks
        \<lparr>s_param_combinations = [(64, 8), (128, 8)], min_benchmarked_grid_size = 512,
          engine_name = (\<lambda>G. ''xorwow''), distribution_name = (\<lambda>D. ''uniform'')\<rparr>
        rocrand_xorwow_template \<lparr>config_size = 1024\<rparr> unsigned_long_long [] = []"
proof -
  have h: "\<not> output_type_supported unsigned_long_long rocrand_xorwow_template" by simp
  show ?thesis using h unsupported_type_registers_nothing [OF h] by simp
qed

text \<open>
  C3. For \<^verbatim>\<open>unsigned int\<close> on a template that supports it, \<^verbatim>\<open>add_benchmarks\<close> appends
  the uniform benchmarks, one per retained combination, and then the alias-method
  Poisson benchmarks, again one per retained combination. For \<^verbatim>\<open>unsigned char\<close>,
  \<^verbatim>\<open>unsigned short\<close> and \<^verbatim>\<open>unsigned long long\<close> it appends the uniform benchmarks of
  that width only, and no benchmark of an integral type other than \<^verbatim>\<open>unsigned int\<close>
  has a Poisson distribution.
\<close>

theorem integral_types_distributions:
  "(output_type_supported unsigned_int G \<longrightarrow>
      add_benchmarks S G cfg unsigned_int bs =
        bs @ map (registered S G cfg unsigned_int (uniform_distribution [unsigned_int])) (retained S)
           @ map (registered S G cfg unsigned_int
                    (rocrand_poisson_distribution ROCRAND_DISCRETE_METHOD_ALIAS)) (retained S))
   \<and> (output_type_supported unsigned_char G \<longrightarrow>
      add_benchmarks S G cfg unsigned_char bs =
        bs @ map (registered S G cfg unsigned_char (uniform_distribution [unsigned_char])) (retained S))
   \<and> (output_type_supported unsigned_short G \<longrightarrow>
      add_benchmarks S G cfg unsigned_short bs =
        bs @ map (registered S G cfg unsigned_short (uniform_distribution [unsigned_short])) (retained S))
   \<and> (output_type_supported unsigned_long_long G \<longrightarrow>
      add_benchmarks S G cfg unsigned_long_long bs =
        bs @ map (registered S G cfg unsigned_long_long
                    (uniform_distribution [unsigned_long_long, unsigned_long_long])) (retained S))
   \<and> (is_integral_v T \<and> T \<noteq> unsigned_int \<longrightarrow>
        (\<forall>b \<in> set (add_benchmarks S G cfg T []). \<forall>m.
           bench_distribution b \<noteq> rocrand_poisson_distribution m))"
proof -
  have "\<forall>b \<in> set (add_benchmarks S G cfg T []). \<forall>m.
           bench_distribution b \<noteq> rocrand_poisson_distribution m"
    if "is_integral_v T" "T \<noteq> unsigned_int"
    using that
    by (cases T; cases "output_type_supported T G")
       (auto simp: add_benchmarks_unsupported add_benchmarks_narrow
          add_benchmarks_unsigned_long_long registered_def)
  then show ?thesis
    by (simp add: add_benchmarks_unsigned_int add_benchmarks_narrow
        add_benchmarks_unsigned_long_long)
qed


text \<open>With one retained combination: two benchmarks for \<^verbatim>\<open>unsigned int\<close>, one for
  \<^verbatim>\<open>unsigned short\<close>.\<close>

theorem integral_types_distributions_witness:
  "map bench_distribution
     (add_benchmarks
        \<lparr>s_param_combinations = [(64, 8), (128, 8)], min_benchmarked_grid_size = 600,
          engine_name = (\<lambda>G. ''xorwow''), distribution_name = (\<lambda>D. ''d'')\<rparr>
        rocrand_xorwow_template \<lparr>config_size = 1024\<rparr> unsigned_int [])
     = [uniform_distribution [unsigned_int],
        rocrand_poisson_distribution ROCRAND_DISCRETE_METHOD_ALIAS]
   \<and> map bench_distribution
     (add_benchmarks
        \<lparr>s_param_combinations = [(64, 8), (128, 8)], min_benchmarked_grid_size = 600,
          engine_name = (\<lambda>G. ''xorwow''), distribution_name = (\<lambda>D. ''d'')\<rparr>
        rocrand_xorwow_template \<lparr>config_size = 1024\<rparr> unsigned_short [])
     = [uniform_distribution [unsigned_short]]"
  using integral_types_distributions
    [where G = rocrand_xorwow_template and cfg = "\<lparr>config_size = 1024\<rparr>" and bs = "[]"
       and T = unsigned_short
       and S = "\<lparr>s_param_combinations = [(64, 8), (128, 8)], min_benchmarked_grid_size = 600,
          engine_name = (\<lambda>G. ''xorwow''), distribution_name = (\<lambda>D. ''d'')\<rparr>"]
  by (simp add: retained_def registered_def)

text \<open>
  C4. For \<^verbatim>\<open>float\<close>, \<^verbatim>\<open>double\<close> and \<^verbatim>\<open>half\<close> on a template that supports the type,
  \<^verbatim>\<open>add_benchmarks\<close> appends the uniform, the normal and the log-normal benchmarks,
  each once per retained combination: three times the number of retained combinations
  in all.
\<close>

theorem floating_types_distributions:
  "output_type_supported T G \<Longrightarrow> T = float \<or> T = double \<or> T = half \<Longrightarrow>
   add_benchmarks S G cfg T bs =
     bs @ map (registered S G cfg T (uniform_distribution [T])) (retained S)
        @ map (registered S G cfg T (normal_distribution [T])) (retained S)
        @ map (registered S G cfg T (log_normal_distribution [T])) (retained S)
   \<and> length (add_benchmarks S G cfg T bs) = length bs + 3 * length (retained S)"
proof -
  assume "output_type_supported T G" and "T = float \<or> T = double \<or> T = half"
  then have eq: "add_benchmarks S G cfg T bs =
     bs @ map (registered S G cfg T (uniform_distribution [T])) (retained S)
        @ map (registered S G cfg T (normal_distribution [T])) (retained S)
        @ map (registered S G cfg T (log_normal_distribution [T])) (retained S)"
    by (intro add_benchmarks_floating) auto
  have "length (add_benchmarks S G cfg T bs) = length bs + 3 * length (retained S)"
    unfolding eq by simp
  with eq show ?thesis by simp
qed

text \<open>With two retained combinations, \<^verbatim>\<open>half\<close> gets six benchmarks.\<close>

theorem floating_types_distributions_witness:
  "output_type_supported half rocrand_xorwow_template
   \<and> map (\<lambda>b. (bench_distribution b, bench_static_config b))
     (add_benchmarks
        \<lparr>s_param_combinations = [(64, 8), (128, 8)], min_benchmarked_grid_size = 512,
          engine_name = (\<lambda>G. ''xorwow''), distribution_name = (\<lambda>D. ''d'')\<rparr>
        rocrand_xorwow_template \<lparr>config_size = 1024\<rparr> half [])
     = [(uniform_distribution [half], \<lparr>threads = 64, blocks = 8\<rparr>),
        (uniform_distribution [half], \<lparr>threads = 128, blocks = 8\<rparr>),
        (normal_distribution [half], \<lparr>threads = 64, blocks = 8\<rparr>),
        (normal_distribution [half], \<lparr>threads = 128, blocks = 8\<rparr>),
        (log_normal_distribution [half], \<lparr>threads = 64, blocks = 8\<rparr>),
        (log_normal_distribution [half], \<lparr>threads = 128, blocks = 8\<rparr>)]
   \<and> length (add_benchmarks
        \<lparr>s_param_combinations = [(64, 8), (128, 8)], min_benchmarked_grid_size = 512,
          engine_name = (\<lambda>G. ''xorwow''), distribution_name = (\<lambda>D. ''d'')\<rparr>
        rocrand_xorwow_template \<lparr>config_size = 1024\<rparr> half []) = 6"
proof -
  have h: "output_type_supported half rocrand_xorwow_template" by simp
  have t: "half = float \<or> half = double \<or> half = half" by simp
  show ?thesis
    using h floating_types_distributions [OF h t,
       where cfg = "\<lparr>config_size = 1024\<rparr>" and bs = "[]"
       and S = "\<lparr>s_param_combinations = [(64, 8), (128, 8)], min_benchmarked_grid_size = 512,
          engine_name = (\<lambda>G. ''xorwow''), distribution_name = (\<lambda>D. ''d'')\<rparr>"]
    by (simp add: retained_def registered_def static_config_def)
qed

text \<open>
  C9. \<^verbatim>\<open>add_all_benchmarks_for_generator\<close> calls \<^verbatim>\<open>add_benchmarks\<close> for
  \<^verbatim>\<open>unsigned int\<close>, \<^verbatim>\<open>unsigned char\<close>, \<^verbatim>\<open>unsigned short\<close>, \<^verbatim>\<open>unsigned long long\<close>,
  \<^verbatim>\<open>float\<close>, \<^verbatim>\<open>half\<close>, \<^verbatim>\<open>double\<close>, in this order, each call on the list the
  previous one left; so the benchmarks it appends are those of each type, one group
  after the other in this order, and every benchmark of a group has the type of the
  group.
\<close>

theorem driver_type_order:
  "add_all_benchmarks_for_generator S G bs cfg =
     foldl (\<lambda>acc T. add_benchmarks S G cfg T acc) bs
       [unsigned_int, unsigned_char, unsigned_short, unsigned_long_long, float, half, double]
   \<and> add_all_benchmarks_for_generator S G bs cfg =
     bs @ concat (map (\<lambda>T. add_benchmarks S G cfg T [])
       [unsigned_int, unsigned_char, unsigned_short, unsigned_long_long, float, half, double])
   \<and> (\<forall>T. \<forall>b \<in> set (add_benchmarks S G cfg T []). bench_T b = T)"
proof -
  have "add_all_benchmarks_for_generator S G bs cfg =
     foldl (\<lambda>acc T. add_benchmarks S G cfg T acc) bs
       [unsigned_int, unsigned_char, unsigned_short, unsigned_long_long, float, half, double]"
    by (simp add: add_all_benchmarks_for_generator_def Let_def)
  then show ?thesis
    using add_all_eq_concat [of S G bs cfg] bench_T_add_benchmarks [of _ S G cfg] by blast
qed

text \<open>The types of the benchmarks of a template that supports all seven types, with one
  retained combination.\<close>

theorem driver_type_order_witness:
  "map bench_T
     (add_all_benchmarks_for_generator
        \<lparr>s_param_combinations = [(64, 8), (128, 8)], min_benchmarked_grid_size = 600,
          engine_name = (\<lambda>G. ''xorwow''), distribution_name = (\<lambda>D. ''d'')\<rparr>
        (other_generator_template ''philox'') [] \<lparr>config_size = 1024\<rparr>)
     = [unsigned_int, unsigned_int, unsigned_char, unsigned_short, unsigned_long_long,
        float, float, float, half, half, half, double, double, double]"
  using driver_type_order
    [where G = "other_generator_template ''philox''" and cfg = "\<lparr>config_size = 1024\<rparr>"
       and bs = "[]"
       and S = "\<lparr>s_param_combinations = [(64, 8), (128, 8)], min_benchmarked_grid_size = 600,
          engine_name = (\<lambda>G. ''xorwow''), distribution_name = (\<lambda>D. ''d'')\<rparr>"]
  by (simp add: add_benchmarks_def Let_def add_benchmarks_impl_eq retained_def registered_def)

text \<open>
  C10. \<^verbatim>\<open>output_type_supported\<close> is false for \<^verbatim>\<open>unsigned long long\<close> on
  \<^verbatim>\<open>rocrand_xorwow_template\<close> and true for every other pair of type and template, and
  the driver for the xorwow template appends no benchmark of type
  \<^verbatim>\<open>unsigned long long\<close>.
\<close>

theorem xorwow_unsigned_long_long_unsupported:
  "\<not> output_type_supported unsigned_long_long rocrand_xorwow_template
   \<and> (\<forall>T G. (T, G) \<noteq> (unsigned_long_long, rocrand_xorwow_template) \<longrightarrow>
         output_type_supported T G)
   \<and> filter (\<lambda>b. bench_T b = unsigned_long_long)
        (drop (length bs) (add_all_benchmarks_for_generator S rocrand_xorwow_template bs cfg)) = []"
proof -
  have others: "output_type_supported T G"
    if "(T, G) \<noteq> (unsigned_long_long, rocrand_xorwow_template)" for T G
    using that by (cases T; cases G) simp_all
  have "bench_T b \<noteq> unsigned_long_long"
    if "b \<in> set (concat (map (\<lambda>T. add_benchmarks S rocrand_xorwow_template cfg T [])
       [unsigned_int, unsigned_char, unsigned_short, unsigned_long_long, float, half, double]))"
    for b
    using that by (auto simp: add_benchmarks_unsupported dest: bench_T_add_benchmarks)
  then have "filter (\<lambda>b. bench_T b = unsigned_long_long)
        (drop (length bs) (add_all_benchmarks_for_generator S rocrand_xorwow_template bs cfg)) = []"
    unfolding add_all_eq_concat by (simp add: filter_empty_conv)
  with others show ?thesis by simp
qed

text \<open>Two pairs other than the excluded one, and the types of the benchmarks of the xorwow
  template with one retained combination.\<close>

theorem xorwow_unsigned_long_long_unsupported_witness:
  "output_type_supported unsigned_long_long (other_generator_template ''philox'')
   \<and> output_type_supported unsigned_int rocrand_xorwow_template
   \<and> map bench_T
     (add_all_benchmarks_for_generator
        \<lparr>s_param_combinations = [(64, 8), (128, 8)], min_benchmarked_grid_size = 600,
          engine_name = (\<lambda>G. ''xorwow''), distribution_name = (\<lambda>D. ''d'')\<rparr>
        rocrand_xorwow_template [] \<lparr>config_size = 1024\<rparr>)
     = [unsigned_int, unsigned_int, unsigned_char, unsigned_short,
        float, float, float, half, half, half, double, double, double]"
  using xorwow_unsigned_long_long_unsupported
    [where cfg = "\<lparr>config_size = 1024\<rparr>" and bs = "[]"
       and S = "\<lparr>s_param_combinations = [(64, 8), (128, 8)], min_benchmarked_grid_size = 600,
          engine_name = (\<lambda>G. ''xorwow''), distribution_name = (\<lambda>D. ''d'')\<rparr>"]
  by (simp add: add_all_eq_concat add_benchmarks_def Let_def add_benchmarks_impl_eq retained_def registered_def)




section \<open>Properties of the timed run\<close>

subsection \<open>A run stops at the first failing call\<close>

lemmas runtime_defs =
  HIP_CHECK_def ROCRAND_CHECK_def runtime_call_def hipMalloc_def hipFree_def
  hipDeviceSynchronize_def hipEventCreate_def hipEventDestroy_def hipEventRecord_def
  hipEventSynchronize_def hipEventElapsedTime_def generate_func_def set_stream_def
  SetIterationTime_def SetBytesProcessed_def SetItemsProcessed_def

lemma run_steps_append:
  "run_steps (xs @ ys) w =
     (case run_steps xs w of (None, w') \<Rightarrow> run_steps ys w' | (Some f, w') \<Rightarrow> (Some f, w'))"
  by (induction xs arbitrary: w) (auto split: prod.splits option.splits)

lemma step_ofD:
  assumes "step_of R c s"
  shows "calls (snd (s w)) = calls w @ [c]"
    and "fst (s w) =
            (if checked_call c \<and> status R (length (calls w)) \<noteq> 0
             then Some (failure_of c (status R (length (calls w)))) else None)"
    and "live (snd (s w)) =
            (if checked_call c \<and> status R (length (calls w)) \<noteq> 0
             then live w else live_effect c (live w))"
proof -
  from assms have "calls (snd (s w)) = calls w @ [c]
        \<and> fst (s w) =
            (if checked_call c \<and> status R (length (calls w)) \<noteq> 0
             then Some (failure_of c (status R (length (calls w)))) else None)
        \<and> live (snd (s w)) =
            (if checked_call c \<and> status R (length (calls w)) \<noteq> 0
             then live w else live_effect c (live w))"
    unfolding step_of_def by (rule spec)
  then show "calls (snd (s w)) = calls w @ [c]"
    and "fst (s w) =
            (if checked_call c \<and> status R (length (calls w)) \<noteq> 0
             then Some (failure_of c (status R (length (calls w)))) else None)"
    and "live (snd (s w)) =
            (if checked_call c \<and> status R (length (calls w)) \<noteq> 0
             then live w else live_effect c (live w))"
    by simp_all
qed

lemma run_steps_all_succeed:
  assumes "list_all2 (step_of R) cs ss"
    and "\<forall>j < length cs. checked_call (cs ! j) \<longrightarrow> status R (length (calls w) + j) = 0"
  shows "fst (run_steps ss w) = None
       \<and> calls (snd (run_steps ss w)) = calls w @ cs
       \<and> live (snd (run_steps ss w)) = fold live_effect cs (live w)"
  using assms
proof (induction cs ss arbitrary: w rule: list_all2_induct)
  case Nil
  show ?case by simp
next
  case (Cons c cs s ss)
  from Cons.prems have ok: "checked_call c \<longrightarrow> status R (length (calls w)) = 0"
    by (auto dest: spec [of _ 0])
  obtain r w' where sw: "s w = (r, w')" by (cases "s w")
  from step_ofD [OF Cons.hyps(1), of w] sw ok
  have c: "calls w' = calls w @ [c]" and r: "r = None"
    and l: "live w' = live_effect c (live w)" by auto
  have run: "run_steps (s # ss) w = run_steps ss w'" using sw r by simp
  have "\<forall>j < length cs. checked_call (cs ! j) \<longrightarrow> status R (length (calls w') + j) = 0"
  proof (intro allI impI)
    fix j assume "j < length cs" and "checked_call (cs ! j)"
    with Cons.prems have "status R (length (calls w) + Suc j) = 0"
      by (auto dest: spec [of _ "Suc j"])
    then show "status R (length (calls w') + j) = 0" by (simp add: c)
  qed
  from Cons.IH [OF this] show ?case unfolding run by (simp add: c l)
qed

lemma run_steps_first_failure:
  assumes "list_all2 (step_of R) cs ss"
    and "k < length cs" and "checked_call (cs ! k)"
    and "status R (length (calls w) + k) \<noteq> 0"
    and "\<forall>j < k. checked_call (cs ! j) \<longrightarrow> status R (length (calls w) + j) = 0"
  shows "fst (run_steps ss w) = Some (failure_of (cs ! k) (status R (length (calls w) + k)))
       \<and> calls (snd (run_steps ss w)) = calls w @ take (Suc k) cs
       \<and> live (snd (run_steps ss w)) = fold live_effect (take k cs) (live w)"
  using assms
proof (induction cs ss arbitrary: w k rule: list_all2_induct)
  case Nil
  then show ?case by simp
next
  case (Cons c cs s ss)
  obtain r w' where sw: "s w = (r, w')" by (cases "s w")
  show ?case
  proof (cases k)
    case 0
    with Cons.prems have bad: "checked_call c" "status R (length (calls w)) \<noteq> 0" by simp_all
    from step_ofD [OF Cons.hyps(1), of w] sw bad
    have c: "calls w' = calls w @ [c]"
      and r: "r = Some (failure_of c (status R (length (calls w))))"
      and l: "live w' = live w" by auto
    have run: "run_steps (s # ss) w = (r, w')" using sw r by simp
    show ?thesis unfolding run using 0 by (simp add: c r l)
  next
    case (Suc k')
    with Cons.prems have ok: "checked_call c \<longrightarrow> status R (length (calls w)) = 0"
      by (auto dest: spec [of _ 0])
    from step_ofD [OF Cons.hyps(1), of w] sw ok
    have c: "calls w' = calls w @ [c]" and r: "r = None"
      and l: "live w' = live_effect c (live w)" by auto
    have run: "run_steps (s # ss) w = run_steps ss w'" using sw r by simp
    have k': "k' < length cs" "checked_call (cs ! k')"
      "status R (length (calls w') + k') \<noteq> 0"
      using Cons.prems Suc by (simp_all add: c)
    have "\<forall>j < k'. checked_call (cs ! j) \<longrightarrow> status R (length (calls w') + j) = 0"
    proof (intro allI impI)
      fix j assume "j < k'" and "checked_call (cs ! j)"
      with Cons.prems(4) Suc have "status R (length (calls w) + Suc j) = 0"
        by (auto dest: spec [of _ "Suc j"])
      then show "status R (length (calls w') + j) = 0" by (simp add: c)
    qed
    from Cons.IH [OF k' this] show ?thesis unfolding run using Suc by (simp add: c l)
  qed
qed

lemma list_all2_loop:
  "list_all2 P (concat (replicate n cs)) (concat (replicate n ss))"
  if "list_all2 P cs ss"
  by (induction n) (simp_all add: that list_all2_appendI)

lemma step_of_measured_iteration:
  "list_all2 (step_of R)
     [Call_hipEventRecord start, Call_generate D (config_size config),
      Call_hipEventRecord stop, Call_hipEventSynchronize stop,
      Call_hipEventElapsedTime start stop, Call_SetIterationTime]
     (measured_iteration R D config)"
  by (simp add: measured_iteration_def step_of_def runtime_defs Let_def)

lemma step_of_run_benchmark:
  "list_all2 (step_of R) (spec_protocol_calls T D config n)
     ([HIP_CHECK (hipMalloc R (config_size config * sizeof T)),
         set_stream,
         ROCRAND_CHECK (generate_func R D config),
         HIP_CHECK (hipDeviceSynchronize R),
         HIP_CHECK (hipEventCreate R start),
         HIP_CHECK (hipEventCreate R stop)]
        @ concat (replicate n (measured_iteration R D config))
        @ [SetBytesProcessed (of_nat n * config_size config * sizeof T),
           SetItemsProcessed (of_nat n * config_size config),
           HIP_CHECK (hipEventDestroy R stop),
           HIP_CHECK (hipEventDestroy R start),
           HIP_CHECK (hipFree R)])"
  unfolding spec_protocol_calls_def
proof (intro list_all2_appendI)
  show "list_all2 (step_of R)
     [Call_hipMalloc (config_size config * sizeof T), Call_set_stream,
       Call_generate D (config_size config), Call_hipDeviceSynchronize,
       Call_hipEventCreate start, Call_hipEventCreate stop]
     [HIP_CHECK (hipMalloc R (config_size config * sizeof T)),
         set_stream,
         ROCRAND_CHECK (generate_func R D config),
         HIP_CHECK (hipDeviceSynchronize R),
         HIP_CHECK (hipEventCreate R start),
         HIP_CHECK (hipEventCreate R stop)]"
    by (simp add: step_of_def runtime_defs Let_def)
  show "list_all2 (step_of R) (concat (replicate n
         [Call_hipEventRecord start, Call_generate D (config_size config),
          Call_hipEventRecord stop, Call_hipEventSynchronize stop,
          Call_hipEventElapsedTime start stop, Call_SetIterationTime]))
       (concat (replicate n (measured_iteration R D config)))"
    by (rule list_all2_loop) (rule step_of_measured_iteration)
  show "list_all2 (step_of R)
      [Call_SetBytesProcessed, Call_SetItemsProcessed,
         Call_hipEventDestroy stop, Call_hipEventDestroy start, Call_hipFree]
      [SetBytesProcessed (of_nat n * config_size config * sizeof T),
           SetItemsProcessed (of_nat n * config_size config),
           HIP_CHECK (hipEventDestroy R stop),
           HIP_CHECK (hipEventDestroy R start),
           HIP_CHECK (hipFree R)]"
    by (simp add: step_of_def runtime_defs Let_def)
qed

subsection \<open>The resources a part of the protocol leaves acquired\<close>

lemma set_concat_replicate: "set (concat (replicate n xs)) \<subseteq> set xs"
  by (induction n) auto

lemma length_concat_replicate: "length (concat (replicate n xs)) = n * length xs"
  by (induction n) auto

lemma length_spec_protocol_calls: "length (spec_protocol_calls T D config n) = 6 * n + 11"
  by (simp add: spec_protocol_calls_def length_concat_replicate)

lemma fold_live_effect_neutral:
  "\<forall>c \<in> set xs. \<forall>A. live_effect c A = A \<Longrightarrow> fold live_effect xs A = A"
  by (induction xs arbitrary: A) simp_all

lemma fold_live_effect_keeps_Buffer:
  "Buffer \<in> A \<Longrightarrow> Call_hipFree \<notin> set xs \<Longrightarrow> Buffer \<in> fold live_effect xs A"
proof (induction xs arbitrary: A)
  case Nil
  then show ?case by simp
next
  case (Cons c xs)
  from Cons.prems have "Buffer \<in> live_effect c A" by (cases c) auto
  with Cons show ?case by simp
qed

lemma neutral_iteration_calls:
  "\<forall>c \<in> set (concat (replicate n
        [Call_hipEventRecord start, Call_generate D m,
         Call_hipEventRecord stop, Call_hipEventSynchronize stop,
         Call_hipEventElapsedTime start stop, Call_SetIterationTime])
        @ [Call_SetBytesProcessed, Call_SetItemsProcessed]). \<forall>A. live_effect c A = A"
proof -
  have "\<forall>c \<in> set [Call_hipEventRecord start, Call_generate D m,
         Call_hipEventRecord stop, Call_hipEventSynchronize stop,
         Call_hipEventElapsedTime start stop, Call_SetIterationTime]. \<forall>A. live_effect c A = A"
    by simp
  with set_concat_replicate [of n "[Call_hipEventRecord start, Call_generate D m,
         Call_hipEventRecord stop, Call_hipEventSynchronize stop,
         Call_hipEventElapsedTime start stop, Call_SetIterationTime]"]
  show ?thesis by (auto simp del: set_concat)
qed

lemma take_middle:
  "length A \<le> k \<Longrightarrow> k \<le> length A + length X \<Longrightarrow> take k (A @ X @ Z) = A @ take (k - length A) X"
  by simp

lemma take_Cons_front:
  "k \<le> length M \<Longrightarrow> take (Suc k) (x # M @ Z) = x # take k M"
  by simp

lemma live_after_success:
  "fold live_effect (spec_protocol_calls T D config n) {} = {}"
proof -
  let ?L = "concat (replicate n
        [Call_hipEventRecord start, Call_generate D (config_size config),
         Call_hipEventRecord stop, Call_hipEventSynchronize stop,
         Call_hipEventElapsedTime start stop, Call_SetIterationTime])
        @ [Call_SetBytesProcessed, Call_SetItemsProcessed]"
  have split: "spec_protocol_calls T D config n =
      [Call_hipMalloc (config_size config * sizeof T), Call_set_stream,
       Call_generate D (config_size config), Call_hipDeviceSynchronize,
       Call_hipEventCreate start, Call_hipEventCreate stop]
      @ ?L @ [Call_hipEventDestroy stop, Call_hipEventDestroy start, Call_hipFree]"
    by (simp add: spec_protocol_calls_def)
  have "fold live_effect ?L A = A" for A
    by (rule fold_live_effect_neutral) (rule neutral_iteration_calls)
  then show ?thesis unfolding split by (simp del: fold_append add: fold_append [of live_effect]) 
qed

lemma live_after_events:
  assumes "6 \<le> k" and "k \<le> 6 * n + 8"
  shows "fold live_effect (take k (spec_protocol_calls T D config n)) {}
     = {Buffer, Event start, Event stop}"
proof -
  let ?L = "concat (replicate n
        [Call_hipEventRecord start, Call_generate D (config_size config),
         Call_hipEventRecord stop, Call_hipEventSynchronize stop,
         Call_hipEventElapsedTime start stop, Call_SetIterationTime])
        @ [Call_SetBytesProcessed, Call_SetItemsProcessed]"
  let ?A = "[Call_hipMalloc (config_size config * sizeof T), Call_set_stream,
       Call_generate D (config_size config), Call_hipDeviceSynchronize,
       Call_hipEventCreate start, Call_hipEventCreate stop]"
  have split: "spec_protocol_calls T D config n =
      ?A @ ?L @ [Call_hipEventDestroy stop, Call_hipEventDestroy start, Call_hipFree]"
    by (simp add: spec_protocol_calls_def)
  have len: "length ?L = 6 * n + 2" by (simp add: length_concat_replicate)
  have "take k (?A @ ?L @ [Call_hipEventDestroy stop, Call_hipEventDestroy start, Call_hipFree])
      = ?A @ take (k - length ?A) ?L"
    by (rule take_middle) (use assms len in simp_all)
  moreover have "k - length ?A = k - 6" by simp
  ultimately have tk: "take k (spec_protocol_calls T D config n) = ?A @ take (k - 6) ?L"
    by (simp only: split)
  have "\<forall>c \<in> set (take (k - 6) ?L). \<forall>A. live_effect c A = A"
    using neutral_iteration_calls [of n D "config_size config"] set_take_subset [of "k - 6" ?L]
    by blast
  then have "fold live_effect (take (k - 6) ?L) A = A" for A
    by (rule fold_live_effect_neutral)
  then show ?thesis unfolding tk by (auto simp add: fold_append [of live_effect] simp del: fold_append)
qed

lemma live_after_allocation:
  assumes "0 < k" and "k < length (spec_protocol_calls T D config n)"
  shows "Buffer \<in> fold live_effect (take k (spec_protocol_calls T D config n)) {}"
proof -
  let ?M = "[Call_set_stream,
       Call_generate D (config_size config), Call_hipDeviceSynchronize,
       Call_hipEventCreate start, Call_hipEventCreate stop]
      @ concat (replicate n
        [Call_hipEventRecord start, Call_generate D (config_size config),
         Call_hipEventRecord stop, Call_hipEventSynchronize stop,
         Call_hipEventElapsedTime start stop, Call_SetIterationTime])
      @ [Call_SetBytesProcessed, Call_SetItemsProcessed,
         Call_hipEventDestroy stop, Call_hipEventDestroy start]"
  have split: "spec_protocol_calls T D config n =
      Call_hipMalloc (config_size config * sizeof T) # ?M @ [Call_hipFree]"
    by (simp add: spec_protocol_calls_def)
  have nofree: "Call_hipFree \<notin> set ?M"
    using set_concat_replicate [of n "[Call_hipEventRecord start, Call_generate D (config_size config),
         Call_hipEventRecord stop, Call_hipEventSynchronize stop,
         Call_hipEventElapsedTime start stop, Call_SetIterationTime]"]
    by (auto simp del: set_concat)
  obtain k' where k': "k = Suc k'" using assms(1) by (cases k) auto
  with assms(2) have "k' \<le> length ?M" unfolding split by simp
  then have tk: "take k (spec_protocol_calls T D config n)
      = Call_hipMalloc (config_size config * sizeof T) # take k' ?M"
    unfolding split k' by (rule take_Cons_front)
  have "Call_hipFree \<notin> set (take k' ?M)"
    using nofree set_take_subset [of k' ?M] by blast
  then have "Buffer \<in> fold live_effect (take k' ?M) {Buffer}"
    by (intro fold_live_effect_keeps_Buffer) simp_all
  then show ?thesis unfolding tk by simp
qed

subsection \<open>The reports of a run without failure\<close>

lemma unat_product2: "unat (of_nat n * a :: 64 word) = (n * unat a) mod 2 ^ 64"
proof -
  have "unat (of_nat n * a :: 64 word) = unat (of_nat n :: 64 word) * unat a mod 2 ^ LENGTH(64)"
    by (rule unat_word_ariths(2))
  also have "unat (of_nat n :: 64 word) = n mod 2 ^ LENGTH(64)" by (rule unat_of_nat)
  also have "n mod 2 ^ LENGTH(64) * unat a mod 2 ^ LENGTH(64) = n * unat a mod 2 ^ LENGTH(64)"
    by (rule mod_mult_left_eq)
  finally show ?thesis by simp
qed

lemma unat_product3: "unat (of_nat n * a * b :: 64 word) = (n * unat a * unat b) mod 2 ^ 64"
proof -
  have L: "(2 :: nat) ^ LENGTH(64) = 2 ^ 64" by simp
  have "unat (of_nat n * a * b) = unat (of_nat n * a) * unat b mod 2 ^ 64"
    using unat_word_ariths(2) [of "of_nat n * a" b] unfolding L .
  also have "unat (of_nat n * a) = (n * unat a) mod 2 ^ 64" by (rule unat_product2)
  also have "n * unat a mod 2 ^ 64 * unat b mod 2 ^ 64 = n * unat a * unat b mod 2 ^ 64"
    by (rule mod_mult_left_eq)
  finally show ?thesis .
qed

lemma sint_of_small:
  fixes w :: "64 word"
  assumes "unat w < 2 ^ 63"
  shows "sint w = int (unat w)"
proof -
  have "int (unat w) < 2 ^ 63" using assms by (metis of_nat_less_iff of_nat_numeral of_nat_power)
  then have u: "uint w < 2 ^ 63" by simp
  have "- (2 ^ 63) \<le> (0 :: int)" by simp
  also have "0 \<le> uint w" by simp
  finally have "signed_take_bit 63 (uint w) = uint w" using u by (rule signed_take_bit_int_eq_self)
  moreover have "sint w = signed_take_bit (LENGTH(64) - Suc 0) (uint w)" by (rule sint_uint)
  ultimately show ?thesis by simp
qed

lemma measured_iteration_success:
  assumes "run_steps (measured_iteration R D config) w = (None, w')"
  shows "iteration_times w' =
     iteration_times w @ [float_div (elapsed_ms R (length (iteration_times w))) 1000]"
  using assms
  by (auto simp add: measured_iteration_def runtime_defs Let_def split: prod.splits if_splits)

lemma loop_success:
  "run_steps (concat (replicate n (measured_iteration R D config))) w = (None, w') \<Longrightarrow>
   iteration_times w' =
     iteration_times w
       @ map (\<lambda>i. float_div (elapsed_ms R (length (iteration_times w) + i)) 1000) [0 ..< n]"
proof (induction n arbitrary: w)
  case 0
  then show ?case by simp
next
  case (Suc n)
  let ?body = "measured_iteration R D config"
  obtain r w1 where b: "run_steps ?body w = (r, w1)" by (cases "run_steps ?body w")
  from Suc.prems have run: "(case run_steps ?body w of
       (None, w1) \<Rightarrow> run_steps (concat (replicate n ?body)) w1
     | (Some f, w1) \<Rightarrow> (Some f, w1)) = (None, w')"
    by (simp add: run_steps_append)
  with b have r: "r = None" by (cases r) simp_all
  with b run have rest: "run_steps (concat (replicate n ?body)) w1 = (None, w')" by simp
  from b r have t1: "iteration_times w1 =
      iteration_times w @ [float_div (elapsed_ms R (length (iteration_times w))) 1000]"
    by (intro measured_iteration_success) simp
  have "map (\<lambda>i. float_div (elapsed_ms R (length (iteration_times w) + i)) 1000) [0 ..< Suc n]
      = float_div (elapsed_ms R (length (iteration_times w))) 1000
        # map (\<lambda>i. float_div (elapsed_ms R (length (iteration_times w1) + i)) 1000) [0 ..< n]"
    unfolding t1 by (simp add: upt_conv_Cons map_Suc_upt [symmetric] del: upt_Suc)
  with Suc.IH [OF rest] t1 show ?case by simp
qed

lemma run_benchmark_stages:
  "run_benchmark R T D config n w =
     (case run_steps
         [HIP_CHECK (hipMalloc R (config_size config * sizeof T)),
          set_stream,
          ROCRAND_CHECK (generate_func R D config),
          HIP_CHECK (hipDeviceSynchronize R),
          HIP_CHECK (hipEventCreate R start),
          HIP_CHECK (hipEventCreate R stop)] w of
        (None, w1) \<Rightarrow>
          (case run_steps (concat (replicate n (measured_iteration R D config))) w1 of
             (None, w2) \<Rightarrow>
               run_steps
                 [SetBytesProcessed (of_nat n * config_size config * sizeof T),
                  SetItemsProcessed (of_nat n * config_size config),
                  HIP_CHECK (hipEventDestroy R stop),
                  HIP_CHECK (hipEventDestroy R start),
                  HIP_CHECK (hipFree R)] w2
           | (Some f, w2) \<Rightarrow> (Some f, w2))
      | (Some f, w1) \<Rightarrow> (Some f, w1))"
  unfolding run_benchmark_def by (simp only: run_steps_append)

lemma setup_result:
  assumes "run_steps
         [HIP_CHECK (hipMalloc R bytes),
          set_stream,
          ROCRAND_CHECK (generate_func R D config),
          HIP_CHECK (hipDeviceSynchronize R),
          HIP_CHECK (hipEventCreate R start),
          HIP_CHECK (hipEventCreate R stop)] w = (None, w1)"
  shows "iteration_times w1 = iteration_times w"
  using assms
  by (auto simp add: runtime_defs Let_def split: prod.splits if_splits)

lemma release_result:
  assumes "run_steps
                 [SetBytesProcessed bytes,
                  SetItemsProcessed items,
                  HIP_CHECK (hipEventDestroy R stop),
                  HIP_CHECK (hipEventDestroy R start),
                  HIP_CHECK (hipFree R)] w = (r, w')"
  shows "bytes_processed w' = bytes \<and> items_processed w' = items
       \<and> iteration_times w' = iteration_times w"
  using assms
  by (auto simp add: runtime_defs Let_def split: prod.splits if_splits)

lemma run_benchmark_success_cases:
  assumes "fst (run_benchmark R T D config n w) = None"
  obtains w1 w2 where
      "run_steps
         [HIP_CHECK (hipMalloc R (config_size config * sizeof T)),
          set_stream,
          ROCRAND_CHECK (generate_func R D config),
          HIP_CHECK (hipDeviceSynchronize R),
          HIP_CHECK (hipEventCreate R start),
          HIP_CHECK (hipEventCreate R stop)] w = (None, w1)"
      "run_steps (concat (replicate n (measured_iteration R D config))) w1 = (None, w2)"
      "run_steps
         [SetBytesProcessed (of_nat n * config_size config * sizeof T),
          SetItemsProcessed (of_nat n * config_size config),
          HIP_CHECK (hipEventDestroy R stop),
          HIP_CHECK (hipEventDestroy R start),
          HIP_CHECK (hipFree R)] w2 = run_benchmark R T D config n w"
proof -
  let ?A = "run_steps
         [HIP_CHECK (hipMalloc R (config_size config * sizeof T)),
          set_stream,
          ROCRAND_CHECK (generate_func R D config),
          HIP_CHECK (hipDeviceSynchronize R),
          HIP_CHECK (hipEventCreate R start),
          HIP_CHECK (hipEventCreate R stop)] w"
  obtain r1 w1 where a: "?A = (r1, w1)" by (cases ?A)
  let ?L = "run_steps (concat (replicate n (measured_iteration R D config))) w1"
  obtain r2 w2 where l: "?L = (r2, w2)" by (cases ?L)
  have r1: "r1 = None"
  proof (cases r1)
    case (Some f)
    with a have "run_benchmark R T D config n w = (Some f, w1)"
      unfolding run_benchmark_stages by simp
    with assms show ?thesis by simp
  qed
  have r2: "r2 = None"
  proof (cases r2)
    case (Some f)
    with a l r1 have "run_benchmark R T D config n w = (Some f, w2)"
      unfolding run_benchmark_stages by simp
    with assms show ?thesis by simp
  qed
  from a l r1 r2 have "run_steps
         [SetBytesProcessed (of_nat n * config_size config * sizeof T),
          SetItemsProcessed (of_nat n * config_size config),
          HIP_CHECK (hipEventDestroy R stop),
          HIP_CHECK (hipEventDestroy R start),
          HIP_CHECK (hipFree R)] w2 = run_benchmark R T D config n w"
    unfolding run_benchmark_stages by simp
  with a l r1 r2 show thesis by (intro that [of w1 w2]) simp_all
qed

lemma run_benchmark_iteration_times:
  assumes "fst (run_benchmark R T D config n w) = None"
  shows "iteration_times (snd (run_benchmark R T D config n w)) =
     iteration_times w
       @ map (\<lambda>i. float_div (elapsed_ms R (length (iteration_times w) + i)) 1000) [0 ..< n]"
proof -
  from assms obtain w1 w2 where
    a: "run_steps
         [HIP_CHECK (hipMalloc R (config_size config * sizeof T)),
          set_stream,
          ROCRAND_CHECK (generate_func R D config),
          HIP_CHECK (hipDeviceSynchronize R),
          HIP_CHECK (hipEventCreate R start),
          HIP_CHECK (hipEventCreate R stop)] w = (None, w1)"
    and l: "run_steps (concat (replicate n (measured_iteration R D config))) w1 = (None, w2)"
    and z: "run_steps
         [SetBytesProcessed (of_nat n * config_size config * sizeof T),
          SetItemsProcessed (of_nat n * config_size config),
          HIP_CHECK (hipEventDestroy R stop),
          HIP_CHECK (hipEventDestroy R start),
          HIP_CHECK (hipFree R)] w2 = run_benchmark R T D config n w"
    by (rule run_benchmark_success_cases)
  obtain r w3 where rw: "run_benchmark R T D config n w = (r, w3)"
    by (cases "run_benchmark R T D config n w")
  from setup_result [OF a] have t1: "iteration_times w1 = iteration_times w" .
  note t2 = loop_success [OF l]
  from release_result [OF z [unfolded rw]] have t3: "iteration_times w3 = iteration_times w2" by simp
  show ?thesis unfolding rw by (simp add: t1 t2 t3)
qed

lemma run_benchmark_totals:
  assumes "fst (run_benchmark R T D config n w) = None"
  shows "bytes_processed (snd (run_benchmark R T D config n w))
            = of_nat n * config_size config * sizeof T
       \<and> items_processed (snd (run_benchmark R T D config n w)) = of_nat n * config_size config"
proof -
  from assms obtain w1 w2 where
    z: "run_steps
         [SetBytesProcessed (of_nat n * config_size config * sizeof T),
          SetItemsProcessed (of_nat n * config_size config),
          HIP_CHECK (hipEventDestroy R stop),
          HIP_CHECK (hipEventDestroy R start),
          HIP_CHECK (hipFree R)] w2 = run_benchmark R T D config n w"
    by (rule run_benchmark_success_cases)
  obtain r w3 where rw: "run_benchmark R T D config n w = (r, w3)"
    by (cases "run_benchmark R T D config n w")
  from release_result [OF z [unfolded rw]] show ?thesis unfolding rw by simp
qed

lemma run_benchmark_all_succeed:
  assumes "\<forall>j < length (spec_protocol_calls T D config n).
      checked_call (spec_protocol_calls T D config n ! j) \<longrightarrow> status R j = 0"
  shows "fst (run_benchmark R T D config n initial_world) = None
       \<and> calls (snd (run_benchmark R T D config n initial_world)) = spec_protocol_calls T D config n
       \<and> live (snd (run_benchmark R T D config n initial_world)) = {}"
proof -
  have "\<forall>j < length (spec_protocol_calls T D config n).
      checked_call (spec_protocol_calls T D config n ! j)
        \<longrightarrow> status R (length (calls initial_world) + j) = 0"
    using assms by (simp add: initial_world_def)
  from run_steps_all_succeed [OF step_of_run_benchmark this]
  show ?thesis
    unfolding run_benchmark_def by (simp add: initial_world_def live_after_success)
qed

lemma run_benchmark_first_failure:
  assumes "k < length (spec_protocol_calls T D config n)"
    and "checked_call (spec_protocol_calls T D config n ! k)"
    and "status R k \<noteq> 0"
    and "\<forall>j < k. checked_call (spec_protocol_calls T D config n ! j) \<longrightarrow> status R j = 0"
  shows "fst (run_benchmark R T D config n initial_world)
            = Some (failure_of (spec_protocol_calls T D config n ! k) (status R k))
       \<and> calls (snd (run_benchmark R T D config n initial_world))
            = take (Suc k) (spec_protocol_calls T D config n)
       \<and> live (snd (run_benchmark R T D config n initial_world))
            = fold live_effect (take k (spec_protocol_calls T D config n)) {}"
proof -
  have a: "status R (length (calls initial_world) + k) \<noteq> 0"
    using assms(3) by (simp add: initial_world_def)
  have b: "\<forall>j < k. checked_call (spec_protocol_calls T D config n ! j)
        \<longrightarrow> status R (length (calls initial_world) + j) = 0"
    using assms(4) by (simp add: initial_world_def)
  from run_steps_first_failure [OF step_of_run_benchmark assms(1) assms(2) a b]
  show ?thesis
    unfolding run_benchmark_def by (simp add: initial_world_def)
qed

lemma run_benchmark_succeeds:
  assumes "\<forall>k. status R k = 0"
  shows "fst (run_benchmark R T D config n initial_world) = None"
  using run_benchmark_all_succeed [of T D config n R] assms by simp

lemma float_div_2_1000: "float_div 2 1000 = 8589935 / 4294967296"
  by code_simp

lemma sizeof_pos: "1 \<le> unat (sizeof T)"
  by (cases T) simp_all

subsection \<open>The claims about the timed run\<close>

text \<open>
  C7. The calls of every run, from the initial world, are an initial segment of the
  protocol: one warm-up \<^verbatim>\<open>generate\<close> and a device synchronization come before the first
  measurement, and each measured iteration records start, generates, records stop,
  waits for stop, reads the elapsed time and reports it, in this order. A run that
  returns without failure has made exactly the calls of the protocol, and the time it
  reported for iteration \<open>i\<close> is the \<^verbatim>\<open>float\<close> quotient of the elapsed milliseconds of that
  iteration by \<^verbatim>\<open>1000.f\<close>. When every call succeeds the run returns without failure.
\<close>

theorem timed_run_protocol:
  "(\<exists>k. calls (snd (run_benchmark R T D config n initial_world))
          = take k (spec_protocol_calls T D config n))
   \<and> (fst (run_benchmark R T D config n initial_world) = None \<longrightarrow>
        calls (snd (run_benchmark R T D config n initial_world)) = spec_protocol_calls T D config n
        \<and> iteration_times (snd (run_benchmark R T D config n initial_world))
            = map (\<lambda>i. float_div (elapsed_ms R i) 1000) [0 ..< n])
   \<and> ((\<forall>k. status R k = 0) \<longrightarrow> fst (run_benchmark R T D config n initial_world) = None)"
proof (intro conjI impI)
  let ?P = "spec_protocol_calls T D config n"
  let ?r = "run_benchmark R T D config n initial_world"
  let ?bad = "\<lambda>k. k < length ?P \<and> checked_call (?P ! k) \<and> status R k \<noteq> 0"
  have dichotomy: "calls (snd ?r) = ?P \<and> fst ?r = None
      \<or> (\<exists>k. calls (snd ?r) = take (Suc k) ?P \<and> fst ?r \<noteq> None)"
  proof (cases "\<exists>k. ?bad k")
    case False
    then have "\<forall>j < length ?P. checked_call (?P ! j) \<longrightarrow> status R j = 0" by auto
    from run_benchmark_all_succeed [OF this] show ?thesis by simp
  next
    case True
    then obtain k where k: "?bad k" and least: "\<forall>j < k. \<not> ?bad j"
      using exists_least_iff [of ?bad] by auto
    from k least have "\<forall>j < k. checked_call (?P ! j) \<longrightarrow> status R j = 0" by auto
    with k run_benchmark_first_failure [of k T D config n R]
    have "calls (snd ?r) = take (Suc k) ?P \<and> fst ?r \<noteq> None" by simp
    then show ?thesis by (intro disjI2 exI [of _ k])
  qed
  show "\<exists>k. calls (snd ?r) = take k ?P"
  proof -
    from dichotomy consider "calls (snd ?r) = ?P" | k where "calls (snd ?r) = take (Suc k) ?P"
      by auto
    then show ?thesis
    proof cases
      case 1
      then have "calls (snd ?r) = take (length ?P) ?P" by simp
      then show ?thesis ..
    next
      case 2
      then show ?thesis ..
    qed
  qed
  show "calls (snd ?r) = ?P" if "fst ?r = None"
    using dichotomy that by auto
  show "iteration_times (snd ?r) = map (\<lambda>i. float_div (elapsed_ms R i) 1000) [0 ..< n]"
    if "fst ?r = None"
    using run_benchmark_iteration_times [OF that] by (simp add: initial_world_def)
  show "fst ?r = None" if "\<forall>k. status R k = 0"
    using that by (rule run_benchmark_succeeds)
qed

text \<open>A run of two iterations of 2 ms in which every call succeeds: each reported time is
  the binary32 number nearest to 0.002.\<close>

theorem timed_run_protocol_witness:
  "(\<forall>k. status \<lparr>status = (\<lambda>k. 0), elapsed_ms = (\<lambda>i. 2)\<rparr> k = 0)
   \<and> fst (run_benchmark \<lparr>status = (\<lambda>k. 0), elapsed_ms = (\<lambda>i. 2)\<rparr> double
          (normal_distribution [double]) \<lparr>config_size = 1024\<rparr> 2 initial_world) = None
   \<and> calls (snd (run_benchmark \<lparr>status = (\<lambda>k. 0), elapsed_ms = (\<lambda>i. 2)\<rparr> double
          (normal_distribution [double]) \<lparr>config_size = 1024\<rparr> 2 initial_world))
      = [Call_hipMalloc 8192, Call_set_stream,
         Call_generate (normal_distribution [double]) 1024,
         Call_hipDeviceSynchronize, Call_hipEventCreate start, Call_hipEventCreate stop,
         Call_hipEventRecord start, Call_generate (normal_distribution [double]) 1024,
         Call_hipEventRecord stop, Call_hipEventSynchronize stop,
         Call_hipEventElapsedTime start stop, Call_SetIterationTime,
         Call_hipEventRecord start, Call_generate (normal_distribution [double]) 1024,
         Call_hipEventRecord stop, Call_hipEventSynchronize stop,
         Call_hipEventElapsedTime start stop, Call_SetIterationTime,
         Call_SetBytesProcessed, Call_SetItemsProcessed,
         Call_hipEventDestroy stop, Call_hipEventDestroy start, Call_hipFree]
   \<and> iteration_times (snd (run_benchmark \<lparr>status = (\<lambda>k. 0), elapsed_ms = (\<lambda>i. 2)\<rparr> double
          (normal_distribution [double]) \<lparr>config_size = 1024\<rparr> 2 initial_world))
      = [8589935 / 4294967296, 8589935 / 4294967296]"
  using timed_run_protocol
    [of "\<lparr>status = (\<lambda>k. 0), elapsed_ms = (\<lambda>i. 2)\<rparr>" double "normal_distribution [double]"
        "\<lparr>config_size = 1024\<rparr>" 2]
  by (simp add: spec_protocol_calls_def eval_nat_numeral float_div_2_1000)

text \<open>
  C8, as stated, fails where the product leaves the range of the counter: \<open>2 ^ 42\<close>
  iterations of \<open>2 ^ 20\<close> values of type \<^verbatim>\<open>unsigned int\<close> are \<open>2 ^ 64\<close> bytes, and the run
  reports 0 bytes.
\<close>

theorem reported_bytes_wrap:
  "fst (run_benchmark \<lparr>status = (\<lambda>k. 0), elapsed_ms = (\<lambda>i. 2)\<rparr> unsigned_int
          (uniform_distribution [unsigned_int])
          \<lparr>config_size = 1048576\<rparr> 4398046511104 initial_world) = None
   \<and> bytes_processed (snd (run_benchmark \<lparr>status = (\<lambda>k. 0), elapsed_ms = (\<lambda>i. 2)\<rparr> unsigned_int
          (uniform_distribution [unsigned_int])
          \<lparr>config_size = 1048576\<rparr> 4398046511104 initial_world)) = 0
   \<and> 4398046511104 * unat (config_size \<lparr>config_size = 1048576\<rparr>) * unat (sizeof unsigned_int)
        = (18446744073709551616 :: nat)"
proof -
  have h: "fst (run_benchmark \<lparr>status = (\<lambda>k. 0), elapsed_ms = (\<lambda>i. 2)\<rparr> unsigned_int
          (uniform_distribution [unsigned_int])
          \<lparr>config_size = 1048576\<rparr> 4398046511104 initial_world) = None"
    by (rule run_benchmark_succeeds) simp
  show ?thesis using h run_benchmark_totals [OF h] by simp
qed

text \<open>
  C8, amended. After a run of \<open>n\<close> iterations that returns without failure, the bytes
  processed are \<open>n * config.size * sizeof(T)\<close> and the items processed are
  \<open>n * config.size\<close>, both computed in \<^verbatim>\<open>std::size_t\<close>, that is modulo \<open>2 ^ 64\<close>. Whenever
  \<open>n * config.size * sizeof(T)\<close> is below \<open>2 ^ 63\<close>, the two \<^verbatim>\<open>int64_t\<close> counters hold exactly
  these products.
\<close>

theorem reported_totals:
  "fst (run_benchmark R T D config n w) = None \<Longrightarrow>
   bytes_processed (snd (run_benchmark R T D config n w))
      = of_nat n * config_size config * sizeof T
   \<and> items_processed (snd (run_benchmark R T D config n w)) = of_nat n * config_size config
   \<and> unat (bytes_processed (snd (run_benchmark R T D config n w)))
      = (n * unat (config_size config) * unat (sizeof T)) mod 2 ^ 64
   \<and> unat (items_processed (snd (run_benchmark R T D config n w)))
      = (n * unat (config_size config)) mod 2 ^ 64
   \<and> (n * unat (config_size config) * unat (sizeof T) < 2 ^ 63 \<longrightarrow>
        sint (bytes_processed (snd (run_benchmark R T D config n w)))
          = int (n * unat (config_size config) * unat (sizeof T))
        \<and> sint (items_processed (snd (run_benchmark R T D config n w)))
          = int (n * unat (config_size config)))"
proof -
  assume ok: "fst (run_benchmark R T D config n w) = None"
  let ?b = "bytes_processed (snd (run_benchmark R T D config n w))"
  let ?i = "items_processed (snd (run_benchmark R T D config n w))"
  let ?B = "n * unat (config_size config) * unat (sizeof T)"
  let ?I = "n * unat (config_size config)"
  from run_benchmark_totals [OF ok]
  have b: "?b = of_nat n * config_size config * sizeof T"
    and i: "?i = of_nat n * config_size config" by simp_all
  have ub: "unat ?b = ?B mod 2 ^ 64" unfolding b by (rule unat_product3)
  have ui: "unat ?i = ?I mod 2 ^ 64" unfolding i by (rule unat_product2)
  have small: "sint ?b = int ?B \<and> sint ?i = int ?I" if lt: "?B < 2 ^ 63"
  proof -
    have "?I * 1 \<le> ?I * unat (sizeof T)" using sizeof_pos [of T] by (rule mult_le_mono2)
    then have "?I \<le> ?B" by (simp only: mult_1_right)
    then have lti: "?I < 2 ^ 63" using lt by (rule le_less_trans)
    have "(2 :: nat) ^ 63 < 2 ^ 64" by simp
    with lt lti have "?B < 2 ^ 64" "?I < 2 ^ 64" by simp_all
    then have "unat ?b = ?B" "unat ?i = ?I" using ub ui by simp_all
    with lt lti show ?thesis using sint_of_small [of ?b] sint_of_small [of ?i] by simp
  qed
  from b i ub ui small show ?thesis by simp
qed

text \<open>Three iterations of 1024 values of type \<^verbatim>\<open>double\<close>.\<close>

theorem reported_totals_witness:
  "fst (run_benchmark \<lparr>status = (\<lambda>k. 0), elapsed_ms = (\<lambda>i. 2)\<rparr> double
          (normal_distribution [double]) \<lparr>config_size = 1024\<rparr> 3 initial_world) = None
   \<and> 3 * unat (config_size \<lparr>config_size = 1024\<rparr>) * unat (sizeof double) < (2 :: nat) ^ 63
   \<and> sint (bytes_processed (snd (run_benchmark \<lparr>status = (\<lambda>k. 0), elapsed_ms = (\<lambda>i. 2)\<rparr> double
          (normal_distribution [double]) \<lparr>config_size = 1024\<rparr> 3 initial_world))) = 24576
   \<and> sint (items_processed (snd (run_benchmark \<lparr>status = (\<lambda>k. 0), elapsed_ms = (\<lambda>i. 2)\<rparr> double
          (normal_distribution [double]) \<lparr>config_size = 1024\<rparr> 3 initial_world))) = 3072"
proof -
  have h: "fst (run_benchmark \<lparr>status = (\<lambda>k. 0), elapsed_ms = (\<lambda>i. 2)\<rparr> double
          (normal_distribution [double]) \<lparr>config_size = 1024\<rparr> 3 initial_world) = None"
    by (rule run_benchmark_succeeds) simp
  show ?thesis using h reported_totals [OF h] by simp
qed

text \<open>A run whose \<^verbatim>\<open>generate\<close> fails in the first measured iteration (call number 7).\<close>

lemma failing_generate_run:
  "run_benchmark \<lparr>status = (\<lambda>k. if k = 7 then 1 else 0), elapsed_ms = (\<lambda>i. 2)\<rparr> float
      (uniform_distribution [float]) \<lparr>config_size = 1024\<rparr> 1 initial_world
   = (Some (ROCRAND_error 1),
      \<lparr>calls = [Call_hipMalloc 4096, Call_set_stream,
         Call_generate (uniform_distribution [float]) 1024,
         Call_hipDeviceSynchronize, Call_hipEventCreate start, Call_hipEventCreate stop,
         Call_hipEventRecord start, Call_generate (uniform_distribution [float]) 1024],
        live = {Event stop, Event start, Buffer}, elapsed = 0, iteration_times = [],
        bytes_processed = 0, items_processed = 0\<rparr>)"
  by (simp add: run_benchmark_def measured_iteration_def runtime_defs initial_world_def Let_def)

text \<open>
  C6, as stated, fails: when \<^verbatim>\<open>generate\<close> fails in the first measured iteration, the run
  ends with the failure while the buffer and both events are still acquired.
\<close>

theorem release_skipped_when_generate_fails:
  "fst (run_benchmark \<lparr>status = (\<lambda>k. if k = 7 then 1 else 0), elapsed_ms = (\<lambda>i. 2)\<rparr> float
      (uniform_distribution [float]) \<lparr>config_size = 1024\<rparr> 1 initial_world)
     = Some (ROCRAND_error 1)
   \<and> live (snd (run_benchmark \<lparr>status = (\<lambda>k. if k = 7 then 1 else 0), elapsed_ms = (\<lambda>i. 2)\<rparr> float
      (uniform_distribution [float]) \<lparr>config_size = 1024\<rparr> 1 initial_world))
     = {Buffer, Event start, Event stop}"
  unfolding failing_generate_run by auto

text \<open>
  C6, amended. When every checked call of the run succeeds, the run returns without
  failure after the whole protocol, and both events and the buffer are released. When
  the call number \<open>k\<close> is the first checked call whose status is not success, the run
  ends with the failure of that call, the call number \<open>k\<close> is the last call it makes,
  and the resources acquired at the end are those that the \<open>k\<close> calls before it left
  acquired: no release after the failing call takes place. So after a failure of any
  call but the allocation the buffer is still allocated, and when the failing call
  comes after the creation of the events and not after \<^verbatim>\<open>hipEventDestroy(stop)\<close>, the
  buffer and both events are still acquired.
\<close>

theorem release_only_when_all_calls_succeed:
  "((\<forall>j < length (spec_protocol_calls T D config n).
        checked_call (spec_protocol_calls T D config n ! j) \<longrightarrow> status R j = 0) \<longrightarrow>
      fst (run_benchmark R T D config n initial_world) = None
      \<and> calls (snd (run_benchmark R T D config n initial_world)) = spec_protocol_calls T D config n
      \<and> live (snd (run_benchmark R T D config n initial_world)) = {})
   \<and> (k < length (spec_protocol_calls T D config n)
        \<and> checked_call (spec_protocol_calls T D config n ! k)
        \<and> status R k \<noteq> 0
        \<and> (\<forall>j < k. checked_call (spec_protocol_calls T D config n ! j) \<longrightarrow> status R j = 0) \<longrightarrow>
      fst (run_benchmark R T D config n initial_world)
        = Some (failure_of (spec_protocol_calls T D config n ! k) (status R k))
      \<and> calls (snd (run_benchmark R T D config n initial_world))
        = take (Suc k) (spec_protocol_calls T D config n)
      \<and> live (snd (run_benchmark R T D config n initial_world))
        = fold live_effect (take k (spec_protocol_calls T D config n)) {}
      \<and> (0 < k \<longrightarrow> Buffer \<in> live (snd (run_benchmark R T D config n initial_world)))
      \<and> (6 \<le> k \<and> k \<le> 6 * n + 8 \<longrightarrow>
            live (snd (run_benchmark R T D config n initial_world))
              = {Buffer, Event start, Event stop}))"
proof (intro conjI impI)
  let ?P = "spec_protocol_calls T D config n"
  let ?r = "run_benchmark R T D config n initial_world"
  assume ok: "\<forall>j < length ?P. checked_call (?P ! j) \<longrightarrow> status R j = 0"
  from run_benchmark_all_succeed [OF ok]
  show "fst ?r = None" and "calls (snd ?r) = ?P" and "live (snd ?r) = {}" by simp_all
next
  let ?P = "spec_protocol_calls T D config n"
  let ?r = "run_benchmark R T D config n initial_world"
  assume bad: "k < length ?P \<and> checked_call (?P ! k) \<and> status R k \<noteq> 0
        \<and> (\<forall>j < k. checked_call (?P ! j) \<longrightarrow> status R j = 0)"
  then have k: "k < length ?P" and c: "checked_call (?P ! k)" and s: "status R k \<noteq> 0"
    and before: "\<forall>j < k. checked_call (?P ! j) \<longrightarrow> status R j = 0" by simp_all
  from run_benchmark_first_failure [OF k c s before]
  have f: "fst ?r = Some (failure_of (?P ! k) (status R k))"
    and t: "calls (snd ?r) = take (Suc k) ?P"
    and l: "live (snd ?r) = fold live_effect (take k ?P) {}" by simp_all
  show "fst ?r = Some (failure_of (?P ! k) (status R k))" by (rule f)
  show "calls (snd ?r) = take (Suc k) ?P" by (rule t)
  show "live (snd ?r) = fold live_effect (take k ?P) {}" by (rule l)
  show "Buffer \<in> live (snd ?r)" if "0 < k"
    unfolding l using that k by (rule live_after_allocation)
  show "live (snd ?r) = {Buffer, Event start, Event stop}" if "6 \<le> k \<and> k \<le> 6 * n + 8"
    unfolding l using that by (intro live_after_events) simp_all
qed

text \<open>Both cases occur: a run in which every call succeeds, and the failing run above,
  where the call number 7 is the first to fail.\<close>

theorem release_only_when_all_calls_succeed_witness:
  "fst (run_benchmark \<lparr>status = (\<lambda>k. 0), elapsed_ms = (\<lambda>i. 2)\<rparr> float
      (uniform_distribution [float]) \<lparr>config_size = 1024\<rparr> 1 initial_world) = None
   \<and> live (snd (run_benchmark \<lparr>status = (\<lambda>k. 0), elapsed_ms = (\<lambda>i. 2)\<rparr> float
      (uniform_distribution [float]) \<lparr>config_size = 1024\<rparr> 1 initial_world)) = {}
   \<and> (7 :: nat) < length (spec_protocol_calls float (uniform_distribution [float])
      \<lparr>config_size = 1024\<rparr> 1)
   \<and> checked_call (spec_protocol_calls float (uniform_distribution [float])
      \<lparr>config_size = 1024\<rparr> 1 ! 7)
   \<and> status \<lparr>status = (\<lambda>k. if k = 7 then 1 else 0), elapsed_ms = (\<lambda>i. 2)\<rparr> 7 \<noteq> 0
   \<and> fst (run_benchmark \<lparr>status = (\<lambda>k. if k = 7 then 1 else 0), elapsed_ms = (\<lambda>i. 2)\<rparr> float
      (uniform_distribution [float]) \<lparr>config_size = 1024\<rparr> 1 initial_world)
       = Some (ROCRAND_error 1)
   \<and> calls (snd (run_benchmark \<lparr>status = (\<lambda>k. if k = 7 then 1 else 0), elapsed_ms = (\<lambda>i. 2)\<rparr>
      float (uniform_distribution [float]) \<lparr>config_size = 1024\<rparr> 1 initial_world))
       = [Call_hipMalloc 4096, Call_set_stream,
          Call_generate (uniform_distribution [float]) 1024,
          Call_hipDeviceSynchronize, Call_hipEventCreate start, Call_hipEventCreate stop,
          Call_hipEventRecord start, Call_generate (uniform_distribution [float]) 1024]
   \<and> live (snd (run_benchmark \<lparr>status = (\<lambda>k. if k = 7 then 1 else 0), elapsed_ms = (\<lambda>i. 2)\<rparr>
      float (uniform_distribution [float]) \<lparr>config_size = 1024\<rparr> 1 initial_world))
       = {Buffer, Event start, Event stop}"
proof -
  let ?R0 = "\<lparr>status = (\<lambda>k. 0), elapsed_ms = (\<lambda>i. 2)\<rparr>"
  let ?R1 = "\<lparr>status = (\<lambda>k. if k = 7 then 1 else 0), elapsed_ms = (\<lambda>i. 2)\<rparr>"
  let ?P = "spec_protocol_calls float (uniform_distribution [float]) \<lparr>config_size = 1024\<rparr> 1"
  have p0: "\<forall>j < length ?P. checked_call (?P ! j) \<longrightarrow> status ?R0 j = 0" by simp
  have p1: "7 < length ?P \<and> checked_call (?P ! 7) \<and> status ?R1 7 \<noteq> 0
      \<and> (\<forall>j < 7. checked_call (?P ! j) \<longrightarrow> status ?R1 j = 0)"
    by (simp add: spec_protocol_calls_def)
  note a = release_only_when_all_calls_succeed
      [of float "uniform_distribution [float]" "\<lparr>config_size = 1024\<rparr>" 1 ?R0 7,
        THEN conjunct1, THEN mp, OF p0]
  note b = release_only_when_all_calls_succeed
      [of float "uniform_distribution [float]" "\<lparr>config_size = 1024\<rparr>" 1 ?R1 7,
        THEN conjunct2, THEN mp, OF p1]
  from a b p1 show ?thesis by (auto simp add: spec_protocol_calls_def)
qed

end
